theory Spec2Isabelle
  imports Complex_Main "HOL-Library.Char_ord" "HOL-Library.List_Lexorder"
    "HOL-Library.Product_Lexorder"
begin

section \<open>Values, JSON rows and data frames\<close>

text \<open>
  The collectors of \<^verbatim>\<open>src/data/data_collector.py\<close> and \<^verbatim>\<open>src/data/collect_data.py\<close>
  move JSON objects into pandas data frames. A cell of a frame is dynamically typed:
  a missing value (JSON \<^verbatim>\<open>null\<close>, a key that a row lacks, pandas' NaN and NaT), a number,
  a string, a nested object (OpenAQ's \<^verbatim>\<open>{"utc": ..., "local": ...}\<close> date) or, after
  \<^verbatim>\<open>pd.to_datetime\<close>, a timestamp (nanoseconds since the epoch, UTC). Numbers are reals:
  means are computed exactly.
\<close>

datatype cell = NaN | Num real | Str string | Dict "(string \<times> cell) list" | Time int

text \<open>A decoded JSON object: its fields in document order, read with \<^const>\<open>map_of\<close>.\<close>

type_synonym json_row = "(string \<times> cell) list"

record dataframe =
  columns :: "string list"
  rows :: "cell list list"

text \<open>Labels in order of first appearance, as pandas builds a column index.\<close>

definition unique :: "'a list \<Rightarrow> 'a list" where
  "unique xs = rev (remdups (rev xs))"

definition lookup_cell :: "string list \<Rightarrow> cell list \<Rightarrow> string \<Rightarrow> cell" where
  "lookup_cell cols row c = (case map_of (zip cols row) c of Some v \<Rightarrow> v | None \<Rightarrow> NaN)"

text \<open>\<^verbatim>\<open>pd.DataFrame()\<close>: no column, no row.\<close>

definition empty_frame :: dataframe where
  "empty_frame = \<lparr>columns = [], rows = []\<rparr>"

text \<open>
  \<^verbatim>\<open>pd.DataFrame(results)\<close> for a list of objects: one column per key that occurs in some
  row, one frame row per object, a missing cell where the object lacks the key.
\<close>

definition DataFrame :: "json_row list \<Rightarrow> dataframe" where
  "DataFrame results =
     (let cols = unique (concat (map (map fst) results))
      in \<lparr>columns = cols,
          rows = map (\<lambda>r. map (\<lambda>c. case map_of r c of Some v \<Rightarrow> v | None \<Rightarrow> NaN) cols) results\<rparr>)"

text \<open>\<^verbatim>\<open>df.empty\<close>: some axis has length 0.\<close>

definition df_empty :: "dataframe \<Rightarrow> bool" where
  "df_empty df \<longleftrightarrow> columns df = [] \<or> rows df = []"

text \<open>\<^verbatim>\<open>len(df)\<close>.\<close>

definition df_len :: "dataframe \<Rightarrow> nat" where
  "df_len df = length (rows df)"

text \<open>\<^verbatim>\<open>df[c] = v\<close> for a scalar: overwrite the column, or append it as the last one.\<close>

definition set_column :: "dataframe \<Rightarrow> string \<Rightarrow> cell \<Rightarrow> dataframe" where
  "set_column df c v =
     (if c \<in> set (columns df)
      then \<lparr>columns = columns df,
            rows = map (\<lambda>r. map (\<lambda>(c', x). if c' = c then v else x) (zip (columns df) r)) (rows df)\<rparr>
      else \<lparr>columns = columns df @ [c], rows = map (\<lambda>r. r @ [v]) (rows df)\<rparr>)"

section \<open>Exceptions, the HTTP boundary and the log\<close>

datatype error =
    KeyError "string list"
  | TypeError
  | ValueError
  | OverflowError
  | AttributeError
  | RequestException "string option"

text \<open>
  What one \<^verbatim>\<open>requests.get\<close> meets: the transport fails (the call raises a
  \<^verbatim>\<open>RequestException\<close> with no response), or a response arrives with its status code, its
  text and what \<^verbatim>\<open>response.json()\<close> makes of the body: not JSON, or an object with or
  without a \<^verbatim>\<open>results\<close> field. As the endpoints document it, \<^verbatim>\<open>results\<close> is a list of
  objects when it is there.
\<close>

datatype body = Not_json | Json "json_row list option"

datatype http_result = Transport_error | Response nat string body

datatype request =
    Get_locations string string int
  | Get_measurements int string string string nat int

text \<open>
  The remote service: the answer to a request may depend on every request issued before
  it in this run.
\<close>

type_synonym server = "request list \<Rightarrow> request \<Rightarrow> http_result"

text \<open>
  \<^verbatim>\<open>response.raise_for_status()\<close> raises \<^verbatim>\<open>HTTPError\<close>, carrying the response, exactly
  for a client or server error status (400 to 599). \<^verbatim>\<open>response.json()\<close> on a body that
  is not JSON raises \<^verbatim>\<open>requests.exceptions.JSONDecodeError\<close>, a \<^verbatim>\<open>RequestException\<close>
  without a response (requests 2.27 and later). \<^verbatim>\<open>data.get('results', [])\<close> reads the list.
\<close>

definition raise_for_status :: "nat \<Rightarrow> bool" where
  "raise_for_status status_code \<longleftrightarrow> 400 \<le> status_code \<and> status_code < 600"

definition get_results :: "http_result \<Rightarrow> error + json_row list" where
  "get_results r =
     (case r of
        Transport_error \<Rightarrow> Inl (RequestException None)
      | Response status_code txt b \<Rightarrow>
          if raise_for_status status_code then Inl (RequestException (Some txt))
          else (case b of
                  Not_json \<Rightarrow> Inl (RequestException None)
                | Json None \<Rightarrow> Inr []
                | Json (Some results) \<Rightarrow> Inr results))"

datatype log_entry =
    Info_request request
  | Info_status nat
  | Info_found nat string string
  | Warning_no_locations string string
  | Error_locations string string
  | Info_fetched nat string int int
  | Error_fetching string int int
  | Error_response_text string
  | Warning_no_data string int

text \<open>The \<^verbatim>\<open>except\<close> handlers log the response text when the exception carries a response.\<close>

definition response_text_log :: "error \<Rightarrow> log_entry list" where
  "response_text_log e =
     (case e of RequestException (Some txt) \<Rightarrow> [Error_response_text txt] | _ \<Rightarrow> [])"

section \<open>\<^verbatim>\<open>AirQualityDataCollector.get_locations\<close>\<close>

text \<open>
  The outside of a collector call: the requests issued so far, in order, and the log.
  The log keeps one entry for the lines that describe a request and one for those that
  describe its response.
\<close>

record io_state =
  issued :: "request list"
  logged :: "log_entry list"

text \<open>
  \<^verbatim>\<open>get_locations\<close> hands the decoded \<^verbatim>\<open>results\<close> on as they are, so its reply is kept as
  a JSON document: \<^verbatim>\<open>null\<close> (Python's \<open>None\<close>), a truth value, a number, a string, a
  list or an object with its members (each key once, as in the decoded dictionary).
\<close>

datatype json =
    JNull
  | JBool bool
  | JNumber real
  | JString string
  | JArray "json list"
  | JObject "(string \<times> json) list"

text \<open>
  Python's truth value of a decoded document, and its \<^verbatim>\<open>len\<close> where it has one (a string
  is counted in bytes here; the number only goes to the log).
\<close>

definition truthy :: "json \<Rightarrow> bool" where
  "truthy v = (case v of
                 JNull \<Rightarrow> False
               | JBool b \<Rightarrow> b
               | JNumber r \<Rightarrow> r \<noteq> 0
               | JString s \<Rightarrow> s \<noteq> []
               | JArray vs \<Rightarrow> vs \<noteq> []
               | JObject fs \<Rightarrow> fs \<noteq> [])"

definition py_len :: "json \<Rightarrow> nat option" where
  "py_len v = (case v of
                 JString s \<Rightarrow> Some (length s)
               | JArray vs \<Rightarrow> Some (length vs)
               | JObject fs \<Rightarrow> Some (length fs)
               | _ \<Rightarrow> None)"

text \<open>
  What the GET of \<^verbatim>\<open>get_locations\<close> meets: no reply (the call raises a
  \<^verbatim>\<open>RequestException\<close> without a response), or a reply with its status code, its text and
  its body, which is not JSON (\<^verbatim>\<open>response.json()\<close> raises) or a JSON document.
\<close>

datatype locations_body = Body_not_json | Body_json json

datatype locations_reply = No_reply | Reply nat string locations_body

type_synonym locations_server = "request list \<Rightarrow> request \<Rightarrow> locations_reply"

text \<open>
  The \<^verbatim>\<open>try\<close> block up to \<^verbatim>\<open>locations = data.get('results', [])\<close>: the value of
  \<^verbatim>\<open>locations\<close>, or the exception raised. Only an object has a \<^verbatim>\<open>get\<close>; on any other
  document the call raises \<^verbatim>\<open>AttributeError\<close>.
\<close>

definition read_locations :: "locations_reply \<Rightarrow> error + json" where
  "read_locations r =
     (case r of
        No_reply \<Rightarrow> Inl (RequestException None)
      | Reply status_code txt b \<Rightarrow>
          if raise_for_status status_code then Inl (RequestException (Some txt))
          else (case b of
                  Body_not_json \<Rightarrow> Inl (RequestException None)
                | Body_json (JObject members) \<Rightarrow>
                    (case map_of members ''results'' of None \<Rightarrow> Inr (JArray []) | Some v \<Rightarrow> Inr v)
                | Body_json data \<Rightarrow> Inl AttributeError))"

text \<open>
  \<^verbatim>\<open>get_locations\<close>: the value it returns, or the exception that reaches its caller.
  \<^verbatim>\<open>if not locations\<close> logs a warning; otherwise \<^verbatim>\<open>len(locations)\<close> is logged, a
  \<^verbatim>\<open>TypeError\<close> on a number or a truth value. \<^verbatim>\<open>except RequestException\<close> catches that
  exception only, logs it and returns the empty list.
\<close>

definition get_locations ::
  "locations_server \<Rightarrow> string \<Rightarrow> string \<Rightarrow> int \<Rightarrow> 'a io_state_scheme \<Rightarrow>
     (error + json) \<times> 'a io_state_scheme" where
  "get_locations srv city country limit st =
     (let q = Get_locations city country limit;
          r = srv (issued st) q;
          st1 = st\<lparr>issued := issued st @ [q], logged := logged st @ [Info_request q]\<rparr>;
          st2 = (case r of
                   No_reply \<Rightarrow> st1
                 | Reply status_code txt b \<Rightarrow>
                     st1\<lparr>logged := logged st1 @ [Info_status status_code]\<rparr>)
      in case read_locations r of
           Inl (RequestException txt) \<Rightarrow>
             (Inr (JArray []),
              st2\<lparr>logged := logged st2 @ [Error_locations city country]
                               @ response_text_log (RequestException txt)\<rparr>)
         | Inl e \<Rightarrow> (Inl e, st2)
         | Inr locations \<Rightarrow>
             if \<not> truthy locations
             then (Inr locations, st2\<lparr>logged := logged st2 @ [Warning_no_locations city country]\<rparr>)
             else (case py_len locations of
                     None \<Rightarrow> (Inl TypeError, st2)
                   | Some n \<Rightarrow>
                       (Inr locations, st2\<lparr>logged := logged st2 @ [Info_found n city country]\<rparr>)))"

section \<open>\<^verbatim>\<open>AirQualityDataCollector.fetch_air_quality_data\<close>: the paging loops\<close>

record fetch_state = io_state +
  all_data :: "dataframe list"
  total_results :: nat

text \<open>
  The \<^verbatim>\<open>while page <= max_pages\<close> loop of one parameter, from a given page on. Each round
  issues one GET; every \<^verbatim>\<open>break\<close> of the source is a branch that returns the state.
  (\<^verbatim>\<open>time.sleep(0.2)\<close> between pages does not change the state.)
\<close>

function page_loop ::
  "server \<Rightarrow> int \<Rightarrow> string \<Rightarrow> string \<Rightarrow> string \<Rightarrow> int \<Rightarrow> int \<Rightarrow> fetch_state \<Rightarrow> fetch_state" where
  "page_loop srv location_id start_date end_date parameter max_pages page st =
     (if page \<le> max_pages then
        (let q = Get_measurements location_id parameter start_date end_date 100 page;
             r = srv (issued st) q;
             st1 = st\<lparr>issued := issued st @ [q]\<rparr>
         in case get_results r of
              Inl e \<Rightarrow>
                st1\<lparr>logged := logged st1 @ [Error_fetching parameter location_id page]
                                 @ response_text_log e\<rparr>
            | Inr results \<Rightarrow>
                if results = [] then st1
                else
                  (let df = DataFrame results;
                       st2 = (if \<not> df_empty df
                              then st1\<lparr>all_data := all_data st1
                                          @ [set_column df ''parameter'' (Str parameter)],
                                       total_results := total_results st1 + df_len df,
                                       logged := logged st1
                                          @ [Info_fetched (df_len df) parameter location_id page]\<rparr>
                              else st1)
                   in if length results < 100 then st2
                      else page_loop srv location_id start_date end_date parameter max_pages
                             (page + 1) st2))
      else st)"
  by pat_completeness auto
termination
  by (relation "measure (\<lambda>(srv, location_id, start_date, end_date, parameter, max_pages, page, st).
        nat (max_pages + 1 - page))") auto

declare page_loop.simps [simp del]

text \<open>The body of \<^verbatim>\<open>for parameter in parameters\<close>.\<close>

definition fetch_parameter ::
  "server \<Rightarrow> int \<Rightarrow> string \<Rightarrow> string \<Rightarrow> int \<Rightarrow> fetch_state \<Rightarrow> string \<Rightarrow> fetch_state" where
  "fetch_parameter srv location_id start_date end_date max_pages st parameter =
     (let st' = page_loop srv location_id start_date end_date parameter max_pages 1
                  (st\<lparr>total_results := 0\<rparr>)
      in if total_results st' = 0
         then st'\<lparr>logged := logged st' @ [Warning_no_data parameter location_id]\<rparr>
         else st')"

definition default_parameters :: "string list" where
  "default_parameters = [''pm25'', ''pm10'', ''o3'', ''no2'', ''so2'', ''co'']"

text \<open>
  The accumulation part of \<^verbatim>\<open>fetch_air_quality_data\<close>: \<^verbatim>\<open>parameters=None\<close> selects the
  default list, \<^verbatim>\<open>all_data\<close> starts empty, the parameters are visited in order.
\<close>

definition fetch_parameters ::
  "server \<Rightarrow> int \<Rightarrow> string \<Rightarrow> string \<Rightarrow> int \<Rightarrow> fetch_state \<Rightarrow> string list \<Rightarrow> fetch_state" where
  "fetch_parameters srv location_id start_date end_date max_pages st ps =
     foldl (fetch_parameter srv location_id start_date end_date max_pages) st ps"

definition collect ::
  "server \<Rightarrow> int \<Rightarrow> string \<Rightarrow> string \<Rightarrow> string list option \<Rightarrow> int \<Rightarrow> io_state \<Rightarrow> fetch_state" where
  "collect srv location_id start_date end_date parameters max_pages io =
     fetch_parameters srv location_id start_date end_date max_pages
       \<lparr>issued = issued io, logged = logged io, all_data = [], total_results = 0\<rparr>
       (case parameters of None \<Rightarrow> default_parameters | Some ps \<Rightarrow> ps)"

section \<open>\<^verbatim>\<open>AirQualityDataCollector._process_data\<close>: the reshape\<close>

text \<open>Sequencing: the first exception ends the computation.\<close>

definition and_then :: "error + 'a \<Rightarrow> ('a \<Rightarrow> error + 'b) \<Rightarrow> error + 'b" where
  "and_then r f = (case r of Inl e \<Rightarrow> Inl e | Inr x \<Rightarrow> f x)"

fun sequence :: "(error + 'a) list \<Rightarrow> error + 'a list" where
  "sequence [] = Inr []"
| "sequence (r # rs) = and_then r (\<lambda>x. and_then (sequence rs) (\<lambda>xs. Inr (x # xs)))"

text \<open>
  \<^verbatim>\<open>pd.concat(all_data, ignore_index=True)\<close>: the union of the columns in order of first
  appearance, every frame's rows re-indexed on it; no frame at all is a \<^verbatim>\<open>ValueError\<close>.
\<close>

definition pd_concat :: "dataframe list \<Rightarrow> error + dataframe" where
  "pd_concat dfs =
     (if dfs = [] then Inl ValueError
      else let cols = unique (concat (map columns dfs))
           in Inr \<lparr>columns = cols,
                   rows = concat (map (\<lambda>df. map (\<lambda>r. map (lookup_cell (columns df) r) cols) (rows df)) dfs)\<rparr>)"

text \<open>\<^verbatim>\<open>df[[c1, ..., cn]]\<close>: a \<^verbatim>\<open>KeyError\<close> naming the labels that are not columns.\<close>

definition select_columns :: "dataframe \<Rightarrow> string list \<Rightarrow> error + dataframe" where
  "select_columns df cs =
     (case filter (\<lambda>c. c \<notin> set (columns df)) cs of
        [] \<Rightarrow> Inr \<lparr>columns = cs, rows = map (\<lambda>r. map (lookup_cell (columns df) r) cs) (rows df)\<rparr>
      | c # missing \<Rightarrow> Inl (KeyError (c # missing)))"

text \<open>\<^verbatim>\<open>df[c]\<close> as a series, and \<^verbatim>\<open>df[c] = series\<close>.\<close>

definition column_values :: "dataframe \<Rightarrow> string \<Rightarrow> cell list" where
  "column_values df c = map (\<lambda>r. lookup_cell (columns df) r c) (rows df)"

definition assign_column :: "dataframe \<Rightarrow> string \<Rightarrow> cell list \<Rightarrow> dataframe" where
  "assign_column df c vs =
     (if c \<in> set (columns df)
      then \<lparr>columns = columns df,
            rows = map (\<lambda>(r, v). map (\<lambda>(c', x). if c' = c then v else x) (zip (columns df) r))
                     (zip (rows df) vs)\<rparr>
      else \<lparr>columns = columns df @ [c], rows = map (\<lambda>(r, v). r @ [v]) (zip (rows df) vs)\<rparr>)"

text \<open>\<^verbatim>\<open>lambda x: x['utc'] if isinstance(x, dict) and 'utc' in x else x\<close>\<close>

definition utc_of :: "cell \<Rightarrow> cell" where
  "utc_of x = (case x of
                 Dict d \<Rightarrow> (case map_of d ''utc'' of Some u \<Rightarrow> u | None \<Rightarrow> x)
               | _ \<Rightarrow> x)"

text \<open>
  \<^verbatim>\<open>pd.to_datetime\<close> is pandas' own: what it makes of a value of the date column (a
  timestamp, the missing timestamp NaT, or an exception) is not decided here but taken
  as a parameter, the reading of the values in one call. Every property below holds for
  every reading. (pandas counts the nanoseconds of a timestamp in 64 bits; a reading
  that pandas can give stays within them, and nothing below depends on the bound.)
\<close>

datatype reading =
    Timestamp int
  | NaT
  | Raises_ValueError
  | Raises_TypeError
  | Raises_OverflowError

definition to_datetime :: "(cell \<Rightarrow> reading) \<Rightarrow> cell \<Rightarrow> error + cell" where
  "to_datetime parse x =
     (case parse x of
        Timestamp t \<Rightarrow> Inr (Time t)
      | NaT \<Rightarrow> Inr NaN
      | Raises_ValueError \<Rightarrow> Inl ValueError
      | Raises_TypeError \<Rightarrow> Inl TypeError
      | Raises_OverflowError \<Rightarrow> Inl OverflowError)"

text \<open>The mean of a group's numbers; a group without a number has none.\<close>

definition mean :: "real list \<Rightarrow> cell" where
  "mean vs = (if vs = [] then NaN else Num (sum_list vs / real (length vs)))"

text \<open>
  The order in which a grouping sorts the values of a key column: numbers, then
  timestamps, then strings by code point.
\<close>

definition cell_ord :: "cell \<Rightarrow> nat \<times> real \<times> string" where
  "cell_ord x = (case x of
                   Num r \<Rightarrow> (0, r, [])
                 | Time t \<Rightarrow> (1, real_of_int t, [])
                 | Str s \<Rightarrow> (2, 0, s)
                 | _ \<Rightarrow> (3, 0, []))"

definition is_num :: "cell \<Rightarrow> bool" where
  "is_num x = (case x of Num r \<Rightarrow> True | _ \<Rightarrow> False)"

definition is_str :: "cell \<Rightarrow> bool" where
  "is_str x = (case x of Str s \<Rightarrow> True | _ \<Rightarrow> False)"

definition is_dict :: "cell \<Rightarrow> bool" where
  "is_dict x = (case x of Dict d \<Rightarrow> True | _ \<Rightarrow> False)"

definition num_of :: "cell \<Rightarrow> real" where
  "num_of x = (case x of Num r \<Rightarrow> r | _ \<Rightarrow> 0)"

definition str_of :: "cell \<Rightarrow> string" where
  "str_of x = (case x of Str s \<Rightarrow> s | _ \<Rightarrow> [])"

text \<open>A frame whose index is a list of key columns, as a pivot returns it.\<close>

record pivoted =
  index_names :: "string list"
  index_keys :: "cell list list"
  labels :: "string list"
  table :: "cell list list"

text \<open>One raw row as the pivot reads it: its key, its label and its value.\<close>

record entry =
  e_key :: "cell list"
  e_label :: cell
  e_value :: cell

definition entries :: "dataframe \<Rightarrow> string list \<Rightarrow> string \<Rightarrow> string \<Rightarrow> entry list" where
  "entries df idx col val =
     map (\<lambda>r. \<lparr>e_key = map (lookup_cell (columns df) r) idx,
               e_label = lookup_cell (columns df) r col,
               e_value = lookup_cell (columns df) r val\<rparr>) (rows df)"

text \<open>
  \<^verbatim>\<open>df.pivot_table(index=idx, columns=col, values=val, aggfunc='mean')\<close> with pandas'
  defaults (\<^verbatim>\<open>dropna=True\<close>, \<^verbatim>\<open>sort=True\<close>):
  \<^item> a label that is not a column is a \<^verbatim>\<open>KeyError\<close>;
  \<^item> the grouping drops every row with a missing key or label; a nested object cannot
    be hashed, and a value that is neither a number nor missing cannot be averaged
    (\<^verbatim>\<open>TypeError\<close>);
  \<^item> a group whose values are all missing has no mean and is dropped, so the result
    has one index entry per key and one column per label of the groups that hold a
    number, both sorted, and a missing cell where a key has no group for a label.
  Column labels of a frame are strings in this development, so a label that is not a
  string is rejected (\<^verbatim>\<open>TypeError\<close>); \<^verbatim>\<open>fetch_air_quality_data\<close> only writes strings
  into the label column.
\<close>

definition aggregate :: "string list \<Rightarrow> entry list \<Rightarrow> error + pivoted" where
  "aggregate idx es =
     (let valid = filter (\<lambda>e. NaN \<notin> set (e_key e) \<and> e_label e \<noteq> NaN) es
      in if list_ex (\<lambda>e. list_ex is_dict (e_key e) \<or> \<not> is_str (e_label e)) valid
            \<or> list_ex (\<lambda>e. \<not> is_num (e_value e) \<and> e_value e \<noteq> NaN) valid
         then Inl TypeError
         else
           (let groups = filter (\<lambda>e. is_num (e_value e)) valid;
                keys = sort_key (map cell_ord) (remdups (map e_key groups));
                labs = sort (remdups (map (\<lambda>e. str_of (e_label e)) groups))
            in Inr \<lparr>index_names = idx, index_keys = keys, labels = labs,
                    table = map (\<lambda>k. map (\<lambda>l. mean (map (\<lambda>e. num_of (e_value e))
                                   (filter (\<lambda>e. e_key e = k \<and> e_label e = Str l) groups))) labs) keys\<rparr>))"

definition pivot_table ::
  "dataframe \<Rightarrow> string list \<Rightarrow> string \<Rightarrow> string \<Rightarrow> error + pivoted" where
  "pivot_table df idx col val =
     (case filter (\<lambda>c. c \<notin> set (columns df)) (val # idx @ [col]) of
        c # missing \<Rightarrow> Inl (KeyError (c # missing))
      | [] \<Rightarrow> aggregate idx (entries df idx col val))"

text \<open>
  \<^verbatim>\<open>reset_index()\<close>: the index levels become the leading columns; a level whose name is
  already a column cannot be inserted (\<^verbatim>\<open>ValueError\<close>).
\<close>

definition reset_index :: "pivoted \<Rightarrow> error + dataframe" where
  "reset_index p =
     (if list_ex (\<lambda>n. n \<in> set (labels p)) (index_names p) then Inl ValueError
      else Inr \<lparr>columns = index_names p @ labels p,
                rows = map (\<lambda>(k, cs). k @ cs) (zip (index_keys p) (table p))\<rparr>)"

definition key_columns :: "string list" where
  "key_columns = [''date'', ''location'', ''city'', ''country'']"

definition process_data :: "(cell \<Rightarrow> reading) \<Rightarrow> dataframe \<Rightarrow> error + dataframe" where
  "process_data parse df =
     (if df_empty df then Inr df
      else
        and_then (select_columns df
                    [''date'', ''parameter'', ''value'', ''unit'', ''location'', ''city'', ''country''])
          (\<lambda>processed_df.
             and_then (sequence (map (\<lambda>x. to_datetime parse (utc_of x))
                                   (column_values processed_df ''date'')))
               (\<lambda>dates.
                  and_then (pivot_table (assign_column processed_df ''date'' dates)
                              key_columns ''parameter'' ''value'')
                    reset_index)))"

text \<open>
  \<^verbatim>\<open>fetch_air_quality_data\<close>: the result (a table or the exception that reaches the
  caller) and what the call did to the outside.
\<close>

definition fetch_air_quality_data ::
  "(cell \<Rightarrow> reading) \<Rightarrow> server \<Rightarrow> int \<Rightarrow> string \<Rightarrow> string \<Rightarrow> string list option \<Rightarrow> int \<Rightarrow>
     io_state \<Rightarrow> (error + dataframe) \<times> io_state" where
  "fetch_air_quality_data parse srv location_id start_date end_date parameters max_pages io =
     (let st = collect srv location_id start_date end_date parameters max_pages io
      in (if all_data st = [] then Inr empty_frame
          else and_then (pd_concat (all_data st)) (process_data parse),
          \<lparr>issued = issued st, logged = logged st\<rparr>))"

section \<open>The EPA driver of \<^verbatim>\<open>collect_data.py\<close>\<close>

record station =
  name :: string
  lat :: real
  lon :: real

definition get_nyc_stations :: "(string \<times> station) list" where
  "get_nyc_stations =
     [(''36-005-0112'', \<lparr>name = ''IS 52 - Bronx'', lat = 40.813, lon = - 73.913\<rparr>),
      (''36-081-0124'', \<lparr>name = ''PS 19 - Queens'', lat = 40.743, lon = - 73.891\<rparr>),
      (''36-047-0010'', \<lparr>name = ''PS 274 - Brooklyn'', lat = 40.621, lon = - 73.912\<rparr>),
      (''36-061-0014'', \<lparr>name = ''CCNY - Manhattan'', lat = 40.819, lon = - 73.949\<rparr>)]"

text \<open>
  The body of an AQS answer is an object whose fields (\<^verbatim>\<open>Header\<close>, \<^verbatim>\<open>Data\<close>) are lists
  of objects. The single GET either raises, or returns a status code, a text and what
  \<^verbatim>\<open>response.json()\<close> gives (\<open>None\<close> when it raises).
\<close>

type_synonym epa_json = "(string \<times> json_row list) list"

datatype epa_result = Epa_exception | Epa_response nat string "epa_json option"

datatype console =
    Getting_stations
  | Found_stations nat
  | Fetching_data
  | Error_fetching_data nat
  | Response_text string
  | Exception_fetching_data
  | Data_saved string
  | Summary_header
  | Total_measurements nat
  | Parameters_available
  | Stations_covered
  | Value_counts "(cell \<times> nat) list"
  | No_measurements

datatype effect = Makedirs string | Print console | To_csv string dataframe

definition fetch_epa_data :: "epa_result \<Rightarrow> epa_json option \<times> effect list" where
  "fetch_epa_data r =
     (case r of
        Epa_exception \<Rightarrow> (None, [Print Exception_fetching_data])
      | Epa_response status_code txt js \<Rightarrow>
          if status_code = 200
          then (case js of
                  None \<Rightarrow> (None, [Print Exception_fetching_data])
                | Some data \<Rightarrow> (Some data, []))
          else (None, [Print (Error_fetching_data status_code), Print (Response_text txt)]))"

text \<open>\<^verbatim>\<open>Series.value_counts()\<close>: the values that are present, the most frequent first.\<close>

definition value_counts :: "cell list \<Rightarrow> (cell \<times> nat) list" where
  "value_counts xs =
     sort_key (\<lambda>(v, n). - int n)
       (map (\<lambda>v. (v, count_list xs v)) (unique (filter (\<lambda>x. x \<noteq> NaN) xs)))"

text \<open>
  \<^verbatim>\<open>main\<close>, given what the GET meets and the time stamp of the file name: what the run
  does, and the exception that ends it when a column it reads is not there.
\<close>

definition main :: "epa_result \<Rightarrow> string \<Rightarrow> (error + unit) \<times> effect list" where
  "main r timestamp =
     (let stations = get_nyc_stations;
          pre = [Makedirs ''data/raw'', Print Getting_stations,
                 Print (Found_stations (length stations)), Print Fetching_data];
          (data, out) = fetch_epa_data r;
          rows_of = (case data of
                       None \<Rightarrow> None
                     | Some d \<Rightarrow> if d = [] then None else map_of d ''Data'')
      in case rows_of of
           None \<Rightarrow> (Inr (), pre @ out @ [Print No_measurements])
         | Some measurements \<Rightarrow>
             (let df = DataFrame measurements
              in if ''site_number'' \<notin> set (columns df)
                 then (Inl (KeyError [''site_number'']), pre @ out)
                 else
                   (let df1 = \<lparr>columns = columns df,
                               rows = filter (\<lambda>row. case lookup_cell (columns df) row ''site_number'' of
                                                      Str s \<Rightarrow> s \<in> set (map fst stations)
                                                    | _ \<Rightarrow> False) (rows df)\<rparr>;
                        df2 = assign_column df1 ''station_name''
                                (map (\<lambda>x. case x of
                                            Str s \<Rightarrow> (case map_of stations s of
                                                        Some st \<Rightarrow> Str (name st)
                                                      | None \<Rightarrow> NaN)
                                          | _ \<Rightarrow> NaN) (column_values df1 ''site_number''));
                        output_file = ''data/raw/nyc_air_quality_'' @ timestamp @ ''.csv'';
                        done = pre @ out @
                               [To_csv output_file df2, Print (Data_saved output_file),
                                Print Summary_header, Print (Total_measurements (df_len df2)),
                                Print Parameters_available]
                    in if ''parameter_name'' \<notin> set (columns df2)
                       then (Inl (KeyError [''parameter_name'']), done)
                       else (Inr (), done @
                               [Print (Value_counts (value_counts (column_values df2 ''parameter_name''))),
                                Print Stations_covered,
                                Print (Value_counts (value_counts (column_values df2 ''station_name'')))]))))"

text \<open>Whether a run wrote a CSV file.\<close>

definition writes_csv :: "effect list \<Rightarrow> bool" where
  "writes_csv effs = list_ex (\<lambda>e. case e of To_csv file df \<Rightarrow> True | _ \<Rightarrow> False) effs"

section \<open>Vocabulary of the properties\<close>

text \<open>The pollutant a measurements request asks for.\<close>

definition request_parameter :: "request \<Rightarrow> string option" where
  "request_parameter q =
     (case q of Get_measurements location_id parameter date_from date_to limit page \<Rightarrow> Some parameter
      | _ \<Rightarrow> None)"

text \<open>The requests of the pages \<open>first, first + 1, ...\<close> of one parameter, \<open>n\<close> of them.\<close>

definition page_requests :: "int \<Rightarrow> string \<Rightarrow> string \<Rightarrow> string \<Rightarrow> int \<Rightarrow> nat \<Rightarrow> request list" where
  "page_requests location_id parameter start_date end_date first n =
     map (\<lambda>k. Get_measurements location_id parameter start_date end_date 100 (first + int k)) [0..<n]"

text \<open>
  The service answers the successive page requests of one parameter, starting at page
  \<open>first\<close> after the requests \<open>history\<close>, with the given result lists, one per page.
\<close>

fun serves ::
  "server \<Rightarrow> request list \<Rightarrow> int \<Rightarrow> string \<Rightarrow> string \<Rightarrow> string \<Rightarrow> int \<Rightarrow> json_row list list \<Rightarrow> bool" where
  "serves srv history location_id parameter start_date end_date first [] = True"
| "serves srv history location_id parameter start_date end_date first (results # pages) =
     (get_results (srv history (Get_measurements location_id parameter start_date end_date 100 first))
        = Inr results
      \<and> serves srv (history @ [Get_measurements location_id parameter start_date end_date 100 first])
          location_id parameter start_date end_date (first + 1) pages)"

text \<open>The frames that a list of pages leaves in \<^verbatim>\<open>all_data\<close>.\<close>

definition page_frames :: "string \<Rightarrow> json_row list list \<Rightarrow> dataframe list" where
  "page_frames parameter pages =
     map (\<lambda>results. set_column (DataFrame results) ''parameter'' (Str parameter))
       (filter (\<lambda>results. \<not> df_empty (DataFrame results)) pages)"

text \<open>
  The state after one page with results has been taken in (the middle of the loop body):
  the request is issued, and a frame that is not empty is tagged, appended, counted and
  logged. \<open>accumulate_pages\<close> takes in successive pages.
\<close>

definition accumulate ::
  "int \<Rightarrow> string \<Rightarrow> string \<Rightarrow> string \<Rightarrow> int \<Rightarrow> json_row list \<Rightarrow> fetch_state \<Rightarrow> fetch_state" where
  "accumulate location_id parameter start_date end_date page results st =
     (let st1 = st\<lparr>issued := issued st
                      @ [Get_measurements location_id parameter start_date end_date 100 page]\<rparr>;
          df = DataFrame results
      in if \<not> df_empty df
         then st1\<lparr>all_data := all_data st1 @ [set_column df ''parameter'' (Str parameter)],
                  total_results := total_results st1 + df_len df,
                  logged := logged st1 @ [Info_fetched (df_len df) parameter location_id page]\<rparr>
         else st1)"

fun accumulate_pages ::
  "int \<Rightarrow> string \<Rightarrow> string \<Rightarrow> string \<Rightarrow> int \<Rightarrow> json_row list list \<Rightarrow> fetch_state \<Rightarrow> fetch_state" where
  "accumulate_pages location_id parameter start_date end_date first [] st = st"
| "accumulate_pages location_id parameter start_date end_date first (results # pages) st =
     accumulate_pages location_id parameter start_date end_date (first + 1) pages
       (accumulate location_id parameter start_date end_date first results st)"

text \<open>
  What the reshape makes of one raw row of a frame: the date as \<^verbatim>\<open>pd.to_datetime\<close> reads
  it (missing when it is read as NaT), and the entry with the composite key, the
  parameter and the value.
\<close>

definition converted :: "(cell \<Rightarrow> reading) \<Rightarrow> cell \<Rightarrow> cell" where
  "converted parse x = (case to_datetime parse (utc_of x) of Inr d \<Rightarrow> d | Inl e \<Rightarrow> NaN)"

definition row_entry :: "(cell \<Rightarrow> reading) \<Rightarrow> dataframe \<Rightarrow> cell list \<Rightarrow> entry" where
  "row_entry parse df row =
     \<lparr>e_key = [converted parse (lookup_cell (columns df) row ''date''),
               lookup_cell (columns df) row ''location'',
               lookup_cell (columns df) row ''city'',
               lookup_cell (columns df) row ''country''],
      e_label = lookup_cell (columns df) row ''parameter'',
      e_value = lookup_cell (columns df) row ''value''\<rparr>"

text \<open>
  A raw row counts for the table when its date is read as a timestamp, its location,
  city and country are present and its value is a number.
\<close>

definition contributes :: "(cell \<Rightarrow> reading) \<Rightarrow> dataframe \<Rightarrow> cell list \<Rightarrow> bool" where
  "contributes parse df row \<longleftrightarrow>
     converted parse (lookup_cell (columns df) row ''date'') \<noteq> NaN
     \<and> list_all (\<lambda>c. lookup_cell (columns df) row c \<noteq> NaN) [''location'', ''city'', ''country'']
     \<and> is_num (lookup_cell (columns df) row ''value'')"

text \<open>The entries that take part in a mean: key and label present, value a number.\<close>

definition counted :: "entry list \<Rightarrow> entry list" where
  "counted es =
     filter (\<lambda>e. is_num (e_value e)) (filter (\<lambda>e. NaN \<notin> set (e_key e) \<and> e_label e \<noteq> NaN) es)"

text \<open>
  The table that the reshape builds from a raw frame: its parameter columns, its
  composite keys and the cell of a key under a parameter.
\<close>

definition table_labels :: "(cell \<Rightarrow> reading) \<Rightarrow> dataframe \<Rightarrow> string list" where
  "table_labels parse df =
     sort (remdups (map (\<lambda>e. str_of (e_label e)) (counted (map (row_entry parse df) (rows df)))))"

definition table_keys :: "(cell \<Rightarrow> reading) \<Rightarrow> dataframe \<Rightarrow> cell list list" where
  "table_keys parse df =
     sort_key (map cell_ord) (remdups (map e_key (counted (map (row_entry parse df) (rows df)))))"

definition table_cell :: "(cell \<Rightarrow> reading) \<Rightarrow> dataframe \<Rightarrow> cell list \<Rightarrow> string \<Rightarrow> cell" where
  "table_cell parse df k l =
     mean (map (\<lambda>e. num_of (e_value e))
            (filter (\<lambda>e. e_key e = k \<and> e_label e = Str l)
               (counted (map (row_entry parse df) (rows df)))))"

text \<open>Sample services and rows, for the concrete instances below.\<close>

definition sample_row :: json_row where
  "sample_row = [(''date'', Dict [(''utc'', Str ''2024-01-01T00:00:00Z'')]), (''value'', Num 10),
                 (''unit'', Str ''ug/m3''), (''location'', Str ''Site 1''), (''city'', Str ''Chicago''),
                 (''country'', Str ''US'')]"

definition two_page_service :: server where
  "two_page_service history q =
     (case q of
        Get_measurements location_id parameter date_from date_to limit page \<Rightarrow>
          if page = 1 then Response 200 [] (Json (Some (replicate 100 sample_row)))
          else Response 200 [] (Json (Some [sample_row]))
      | _ \<Rightarrow> Transport_error)"

definition failing_service :: server where
  "failing_service history q =
     (case q of
        Get_measurements location_id parameter date_from date_to limit page \<Rightarrow>
          if parameter = ''pm25''
          then (if page = 1 then Response 200 [] (Json (Some (replicate 100 sample_row)))
                else Response 503 ''Service Unavailable'' Not_json)
          else Response 200 [] (Json (Some [sample_row]))
      | _ \<Rightarrow> Transport_error)"

definition sample_parse :: "cell \<Rightarrow> reading" where
  "sample_parse x =
     (if x = Str ''2024-01-01T00:00:00Z'' then Timestamp 1704067200000000000
      else if x = NaN then NaT
      else Raises_ValueError)"

text \<open>A row whose city is \<^verbatim>\<open>null\<close>, and a service that has only such rows for pm25.\<close>

definition null_city_row :: json_row where
  "null_city_row = [(''date'', Dict [(''utc'', Str ''2024-01-01T00:00:00Z'')]), (''value'', Num 12),
                    (''unit'', Str ''ug/m3''), (''location'', Str ''Site 1''),
                    (''city'', NaN), (''country'', Str ''US'')]"

definition null_city_service :: server where
  "null_city_service history q =
     (case q of
        Get_measurements location_id parameter date_from date_to limit page \<Rightarrow>
          if parameter = ''pm25'' then Response 200 [] (Json (Some [null_city_row]))
          else Response 200 [] (Json (Some [sample_row]))
      | _ \<Rightarrow> Transport_error)"

definition one_row_service :: server where
  "one_row_service history q = Response 200 [] (Json (Some [sample_row]))"

section \<open>The paging loop issues a bounded number of requests\<close>

lemma page_loop_issued:
  "\<exists>qs. issued (page_loop srv loc sd ed p mp page st) = issued st @ qs
        \<and> length qs \<le> nat (mp + 1 - page)
        \<and> list_all (\<lambda>q. request_parameter q = Some p) qs"
proof (induction srv loc sd ed p mp page st rule: page_loop.induct)
  case (1 srv loc sd ed p mp page st)
  show ?case
  proof (cases "page \<le> mp")
    case False
    then show ?thesis by (subst page_loop.simps) simp
  next
    case le: True
    let ?q = "Get_measurements loc p sd ed 100 page"
    let ?st1 = "st\<lparr>issued := issued st @ [?q]\<rparr>"
    show ?thesis
    proof (cases "get_results (srv (issued st) ?q)")
      case (Inl e)
      with le have "issued (page_loop srv loc sd ed p mp page st) = issued st @ [?q]"
        by (subst page_loop.simps) simp
      with le show ?thesis by (simp add: request_parameter_def)
    next
      case (Inr results)
      show ?thesis
      proof (cases "results = [] \<or> length results < 100")
        case True
        with le Inr have "issued (page_loop srv loc sd ed p mp page st) = issued st @ [?q]"
          by (subst page_loop.simps) (auto simp: Let_def)
        with le show ?thesis by (simp add: request_parameter_def)
      next
        case False
        let ?df = "DataFrame results"
        let ?st2 = "if \<not> df_empty ?df
                    then ?st1\<lparr>all_data := all_data ?st1 @ [set_column ?df ''parameter'' (Str p)],
                             total_results := total_results ?st1 + df_len ?df,
                             logged := logged ?st1 @ [Info_fetched (df_len ?df) p loc page]\<rparr>
                    else ?st1"
        from le Inr False
        have eq: "page_loop srv loc sd ed p mp page st = page_loop srv loc sd ed p mp (page + 1) ?st2"
          by (subst page_loop.simps) (simp add: Let_def)
        have i2: "issued ?st2 = issued st @ [?q]" by simp
        from "1.IH"[OF le refl refl refl Inr _ refl refl] False
        obtain qs where qs: "issued (page_loop srv loc sd ed p mp (page + 1) ?st2) = issued ?st2 @ qs"
          "length qs \<le> nat (mp + 1 - (page + 1))" "list_all (\<lambda>q. request_parameter q = Some p) qs"
          by auto
        have "issued (page_loop srv loc sd ed p mp page st) = issued st @ (?q # qs)"
          using eq qs(1) i2 by simp
        moreover have "length (?q # qs) \<le> nat (mp + 1 - page)" using qs(2) le by simp
        moreover have "list_all (\<lambda>q. request_parameter q = Some p) (?q # qs)"
          using qs(3) by (simp add: request_parameter_def)
        ultimately show ?thesis by blast
      qed
    qed
  qed
qed

lemma fetch_parameter_issued:
  "\<exists>qs. issued (fetch_parameter srv loc sd ed mp st p) = issued st @ qs
        \<and> length qs \<le> nat mp
        \<and> list_all (\<lambda>q. request_parameter q = Some p) qs"
proof -
  obtain qs where "issued (page_loop srv loc sd ed p mp 1 (st\<lparr>total_results := 0\<rparr>))
      = issued (st\<lparr>total_results := 0\<rparr>) @ qs" "length qs \<le> nat (mp + 1 - 1)"
      "list_all (\<lambda>q. request_parameter q = Some p) qs"
    using page_loop_issued by blast
  then show ?thesis by (auto simp: fetch_parameter_def Let_def)
qed

lemma fetch_parameter_count:
  "length (filter (\<lambda>q. request_parameter q = Some p') (issued (fetch_parameter srv loc sd ed mp st p)))
     \<le> length (filter (\<lambda>q. request_parameter q = Some p') (issued st))
        + (if p = p' then nat mp else 0)"
proof -
  obtain qs where qs: "issued (fetch_parameter srv loc sd ed mp st p) = issued st @ qs"
    "length qs \<le> nat mp" "list_all (\<lambda>q. request_parameter q = Some p) qs"
    using fetch_parameter_issued by blast
  show ?thesis
  proof (cases "p = p'")
    case True
    have "length (filter (\<lambda>q. request_parameter q = Some p') qs) \<le> length qs"
      by (rule length_filter_le)
    then have "length (filter (\<lambda>q. request_parameter q = Some p') qs) \<le> nat mp"
      using qs(2) by (rule order_trans)
    with qs(1) True show ?thesis by simp
  next
    case False
    with qs(3) have "filter (\<lambda>q. request_parameter q = Some p') qs = []"
      by (auto simp: list_all_iff filter_empty_conv)
    with qs(1) False show ?thesis by simp
  qed
qed

lemma fetch_parameters_count:
  "length (filter (\<lambda>q. request_parameter q = Some p) (issued (fetch_parameters srv loc sd ed mp st ps)))
     \<le> length (filter (\<lambda>q. request_parameter q = Some p) (issued st)) + count_list ps p * nat mp"
proof (induction ps arbitrary: st)
  case Nil
  show ?case by (simp add: fetch_parameters_def)
next
  case (Cons a ps)
  have "fetch_parameters srv loc sd ed mp st (a # ps)
      = fetch_parameters srv loc sd ed mp (fetch_parameter srv loc sd ed mp st a) ps"
    by (simp add: fetch_parameters_def)
  moreover note Cons.IH[of "fetch_parameter srv loc sd ed mp st a"]
    fetch_parameter_count[of p srv loc sd ed mp st a]
  ultimately show ?case by (auto split: if_splits)
qed

text \<open>
  Claim C2. One run of a parameter's page loop adds at most \<open>max_pages\<close> requests to
  those issued so far, whatever the service answers; and in a whole call of
  \<^verbatim>\<open>fetch_air_quality_data\<close> the number of measurement requests issued for a parameter
  is at most \<open>max_pages\<close> for each time the parameter stands in the parameter list (the
  default list when the argument is \<open>None\<close>).
\<close>

theorem page_cap_per_parameter:
  "length (issued (fetch_parameter srv location_id start_date end_date max_pages st parameter))
     \<le> length (issued st) + nat max_pages
   \<and> length (filter (\<lambda>q. request_parameter q = Some parameter)
        (issued (snd (fetch_air_quality_data parse srv location_id start_date end_date
                        parameters max_pages io))))
     \<le> length (filter (\<lambda>q. request_parameter q = Some parameter) (issued io))
        + count_list (case parameters of None \<Rightarrow> default_parameters | Some ps \<Rightarrow> ps) parameter
          * nat max_pages"
proof -
  have "length (issued (fetch_parameter srv location_id start_date end_date max_pages st parameter))
     \<le> length (issued st) + nat max_pages"
    using fetch_parameter_issued[of srv location_id start_date end_date max_pages st parameter]
    by auto
  moreover have "length (filter (\<lambda>q. request_parameter q = Some parameter)
        (issued (snd (fetch_air_quality_data parse srv location_id start_date end_date
                        parameters max_pages io))))
     \<le> length (filter (\<lambda>q. request_parameter q = Some parameter) (issued io))
        + count_list (case parameters of None \<Rightarrow> default_parameters | Some ps \<Rightarrow> ps) parameter
          * nat max_pages"
    using fetch_parameters_count[of parameter srv location_id start_date end_date max_pages
        "\<lparr>issued = issued io, logged = logged io, all_data = [], total_results = 0\<rparr>"
        "case parameters of None \<Rightarrow> default_parameters | Some ps \<Rightarrow> ps"]
    by (simp add: fetch_air_quality_data_def collect_def Let_def)
  ultimately show ?thesis by blast
qed

section \<open>An empty parameter list\<close>

text \<open>
  Claim C10. With an explicitly empty parameter list \<^verbatim>\<open>fetch_air_quality_data\<close> returns
  the empty table and leaves the outside as it was: no request is issued, nothing is
  logged. The six default pollutants are what \<open>None\<close> stands for, and only \<open>None\<close>.
\<close>

theorem empty_parameter_list:
  "fetch_air_quality_data parse srv location_id start_date end_date (Some []) max_pages io
     = (Inr empty_frame, io)
   \<and> fetch_air_quality_data parse srv location_id start_date end_date None max_pages io
     = fetch_air_quality_data parse srv location_id start_date end_date
         (Some [''pm25'', ''pm10'', ''o3'', ''no2'', ''so2'', ''co'']) max_pages io"
  by (simp add: fetch_air_quality_data_def collect_def fetch_parameters_def default_parameters_def)

section \<open>What \<^verbatim>\<open>get_locations\<close> returns\<close>

text \<open>
  Claim C4, as the code has it. \<^verbatim>\<open>get_locations\<close> returns the empty list when the request
  raises a transport exception and when the status is a client or server error (400 to
  599, where \<^verbatim>\<open>raise_for_status\<close> raises), and no \<^verbatim>\<open>RequestException\<close> ever reaches its
  caller. A reply with any other status, 2xx or not, is read as a success: from an
  object, the value of \<^verbatim>\<open>results\<close> is returned as it is (the empty list when the list is
  empty or the field is not there, \<open>None\<close> for \<^verbatim>\<open>null\<close>), except that a number other than
  zero or \<^verbatim>\<open>true\<close> raises \<^verbatim>\<open>TypeError\<close>; a JSON body that is not an object raises
  \<^verbatim>\<open>AttributeError\<close>. The handler catches neither. (A body that is not JSON raises a
  \<^verbatim>\<open>RequestException\<close> and gives the empty list.)
\<close>

theorem get_locations_result:
  "fst (get_locations srv city country limit st) =
     (case srv (issued st) (Get_locations city country limit) of
        No_reply \<Rightarrow> Inr (JArray [])
      | Reply status_code txt b \<Rightarrow>
          if 400 \<le> status_code \<and> status_code < 600 then Inr (JArray [])
          else (case b of
                  Body_not_json \<Rightarrow> Inr (JArray [])
                | Body_json (JObject members) \<Rightarrow>
                    (case map_of members ''results'' of
                       None \<Rightarrow> Inr (JArray [])
                     | Some (JBool b) \<Rightarrow> if b then Inl TypeError else Inr (JBool b)
                     | Some (JNumber r) \<Rightarrow> if r \<noteq> 0 then Inl TypeError else Inr (JNumber r)
                     | Some locations \<Rightarrow> Inr locations)
                | Body_json data \<Rightarrow> Inl AttributeError))
   \<and> fst (get_locations srv city country limit st) \<noteq> Inl (RequestException txt)"
  by (auto simp add: get_locations_def read_locations_def raise_for_status_def Let_def
                     truthy_def py_len_def
           split: locations_reply.splits locations_body.splits json.splits option.splits)

text \<open>
  Claim C4 as stated fails for a status that is neither 2xx nor an error status: a
  300 reply with a results list is not 2xx, \<^verbatim>\<open>raise_for_status\<close> lets it pass, and its
  results are returned.
\<close>

theorem get_locations_redirect_status:
  "\<not> (200 \<le> (300::nat) \<and> (300::nat) < 300)
   \<and> fst (get_locations
            (\<lambda>history q. Reply 300 ''Multiple Choices''
               (Body_json (JObject [(''results'',
                  JArray [JObject [(''id'', JNumber 2178), (''name'', JString ''Chicago'')]])])))
            ''Chicago'' ''US'' 3 \<lparr>issued = [], logged = []\<rparr>)
       = Inr (JArray [JObject [(''id'', JNumber 2178), (''name'', JString ''Chicago'')]])"
  by (simp add: get_locations_def read_locations_def raise_for_status_def Let_def
                truthy_def py_len_def)

section \<open>The EPA driver writes nothing when the fetch fails\<close>

text \<open>
  Claim C8. When the GET raises, or answers with a status other than 200,
  \<^verbatim>\<open>fetch_epa_data\<close> prints the failure and returns \<open>None\<close>; \<^verbatim>\<open>main\<close> then only prints
  (after creating the directory, before the fetch) and ends normally: no CSV file is
  written, no frame is built or filtered.
\<close>

theorem epa_failure_writes_no_csv:
  "fetch_epa_data Epa_exception = (None, [Print Exception_fetching_data])
   \<and> main Epa_exception timestamp
       = (Inr (), [Makedirs ''data/raw'', Print Getting_stations, Print (Found_stations 4),
                   Print Fetching_data, Print Exception_fetching_data, Print No_measurements])
   \<and> (status_code \<noteq> 200 \<longrightarrow>
        fetch_epa_data (Epa_response status_code txt js)
          = (None, [Print (Error_fetching_data status_code), Print (Response_text txt)])
        \<and> main (Epa_response status_code txt js) timestamp
          = (Inr (), [Makedirs ''data/raw'', Print Getting_stations, Print (Found_stations 4),
                      Print Fetching_data, Print (Error_fetching_data status_code),
                      Print (Response_text txt), Print No_measurements])
        \<and> \<not> writes_csv (snd (main (Epa_response status_code txt js) timestamp)))
   \<and> \<not> writes_csv (snd (main Epa_exception timestamp))"
  by (simp add: fetch_epa_data_def main_def get_nyc_stations_def writes_csv_def Let_def)

theorem epa_failure_writes_no_csv_witness:
  "(503::nat) \<noteq> 200
   \<and> main (Epa_response 503 ''Service Unavailable'' None) ''20240101_000000''
       = (Inr (), [Makedirs ''data/raw'', Print Getting_stations, Print (Found_stations 4),
                   Print Fetching_data, Print (Error_fetching_data 503),
                   Print (Response_text ''Service Unavailable''), Print No_measurements])
   \<and> \<not> writes_csv (snd (main (Epa_response 503 ''Service Unavailable'' None) ''20240101_000000''))"
  using epa_failure_writes_no_csv [of "''20240101_000000''" 503 "''Service Unavailable''" None]
  by (simp add: writes_csv_def)

section \<open>The paging loop, page by page\<close>

lemma page_loop_done:
  "\<not> page \<le> mp \<Longrightarrow> page_loop srv loc sd ed p mp page st = st"
  by (subst page_loop.simps) simp

lemma page_loop_error:
  assumes "page \<le> mp"
    and "get_results (srv (issued st) (Get_measurements loc p sd ed 100 page)) = Inl e"
  shows "page_loop srv loc sd ed p mp page st =
           st\<lparr>issued := issued st @ [Get_measurements loc p sd ed 100 page],
              logged := logged st @ [Error_fetching p loc page] @ response_text_log e\<rparr>"
  using assms by (subst page_loop.simps) simp

lemma accumulate_Nil:
  "accumulate loc p sd ed page [] st = st\<lparr>issued := issued st @ [Get_measurements loc p sd ed 100 page]\<rparr>"
  by (simp add: accumulate_def DataFrame_def df_empty_def unique_def)

lemma page_loop_short:
  assumes "page \<le> mp"
    and "get_results (srv (issued st) (Get_measurements loc p sd ed 100 page)) = Inr results"
    and "length results < 100"
  shows "page_loop srv loc sd ed p mp page st = accumulate loc p sd ed page results st"
proof (cases "results = []")
  case True
  with assms show ?thesis
    by (subst page_loop.simps) (simp add: accumulate_Nil)
next
  case False
  with assms show ?thesis
    by (subst page_loop.simps) (simp add: accumulate_def Let_def)
qed

lemma page_loop_full:
  assumes "page \<le> mp"
    and "get_results (srv (issued st) (Get_measurements loc p sd ed 100 page)) = Inr results"
    and "100 \<le> length results"
  shows "page_loop srv loc sd ed p mp page st =
           page_loop srv loc sd ed p mp (page + 1) (accumulate loc p sd ed page results st)"
proof -
  from assms(3) have "results \<noteq> []" "\<not> length results < 100" by auto
  with assms(1,2) show ?thesis
    by (subst page_loop.simps) (simp add: accumulate_def Let_def)
qed

lemma issued_accumulate [simp]:
  "issued (accumulate loc p sd ed page results st) = issued st @ [Get_measurements loc p sd ed 100 page]"
  by (simp add: accumulate_def Let_def)

lemma all_data_accumulate:
  "all_data (accumulate loc p sd ed page results st) = all_data st @ page_frames p [results]"
  by (simp add: accumulate_def Let_def page_frames_def)

lemma page_requests_Suc:
  "page_requests loc p sd ed first (Suc n) =
     Get_measurements loc p sd ed 100 first # page_requests loc p sd ed (first + 1) n"
proof -
  have "[0..<Suc n] = 0 # map Suc [0..<n]"
    by (simp add: upt_conv_Cons map_Suc_upt del: upt_Suc)
  then show ?thesis
    by (simp add: page_requests_def comp_def add.assoc del: upt_Suc)
qed

lemma page_requests_0 [simp]: "page_requests loc p sd ed first 0 = []"
  by (simp add: page_requests_def)

lemma page_requests_snoc:
  "page_requests loc p sd ed first (Suc n) =
     page_requests loc p sd ed first n @ [Get_measurements loc p sd ed 100 (first + int n)]"
  by (simp add: page_requests_def)

lemma issued_accumulate_pages:
  "issued (accumulate_pages loc p sd ed first pages st)
     = issued st @ page_requests loc p sd ed first (length pages)"
  by (induction pages arbitrary: first st) (simp_all add: page_requests_Suc)

lemma all_data_accumulate_pages:
  "all_data (accumulate_pages loc p sd ed first pages st) = all_data st @ page_frames p pages"
proof (induction pages arbitrary: first st)
  case Nil
  show ?case by (simp add: page_frames_def)
next
  case (Cons results pages)
  show ?case
    by (simp add: Cons.IH all_data_accumulate) (simp add: page_frames_def)
qed

lemma serves_append:
  "serves srv h loc p sd ed first (pages @ pages') \<longleftrightarrow>
     serves srv h loc p sd ed first pages
     \<and> serves srv (h @ page_requests loc p sd ed first (length pages)) loc p sd ed
         (first + int (length pages)) pages'"
proof (induction pages arbitrary: h first)
  case Nil
  show ?case by simp
next
  case (Cons results pages)
  show ?case
    by (simp add: Cons.IH page_requests_Suc ac_simps)
qed

lemma page_loop_full_pages:
  assumes "serves srv (issued st) loc p sd ed page pages"
    and "list_all (\<lambda>results. 100 \<le> length results) pages"
    and "page + int (length pages) \<le> mp + 1"
  shows "page_loop srv loc sd ed p mp page st =
           page_loop srv loc sd ed p mp (page + int (length pages))
             (accumulate_pages loc p sd ed page pages st)"
  using assms
proof (induction pages arbitrary: page st)
  case Nil
  show ?case by simp
next
  case (Cons results pages)
  from Cons.prems have le: "page \<le> mp"
    and res: "get_results (srv (issued st) (Get_measurements loc p sd ed 100 page)) = Inr results"
    and full: "100 \<le> length results"
    and rest: "serves srv (issued (accumulate loc p sd ed page results st)) loc p sd ed (page + 1) pages"
    by simp_all
  have "page_loop srv loc sd ed p mp page st =
          page_loop srv loc sd ed p mp (page + 1) (accumulate loc p sd ed page results st)"
    using le res full by (rule page_loop_full)
  also have "\<dots> = page_loop srv loc sd ed p mp (page + 1 + int (length pages))
       (accumulate_pages loc p sd ed (page + 1) pages (accumulate loc p sd ed page results st))"
    using rest Cons.prems(2,3) by (intro Cons.IH) simp_all
  finally show ?case by (simp add: ac_simps)
qed

lemma unique_Nil_iff [simp]: "unique xs = [] \<longleftrightarrow> xs = []"
  by (simp add: unique_def)

lemma set_unique [simp]: "set (unique xs) = set xs"
  by (simp add: unique_def)

lemma distinct_unique [simp]: "distinct (unique xs)"
  by (simp add: unique_def)

lemma df_empty_DataFrame:
  "df_empty (DataFrame results) \<longleftrightarrow> list_all (\<lambda>row. row = []) results"
  by (auto simp: df_empty_def DataFrame_def Let_def list_all_iff)

lemma df_len_tagged:
  "df_len (set_column (DataFrame results) c v) = length results"
  by (simp add: df_len_def set_column_def DataFrame_def Let_def)

lemma fetch_parameter_issued_eq:
  "issued (fetch_parameter srv loc sd ed mp st p)
     = issued (page_loop srv loc sd ed p mp 1 (st\<lparr>total_results := 0\<rparr>))"
  by (simp add: fetch_parameter_def Let_def)

lemma fetch_parameter_all_data_eq:
  "all_data (fetch_parameter srv loc sd ed mp st p)
     = all_data (page_loop srv loc sd ed p mp 1 (st\<lparr>total_results := 0\<rparr>))"
  by (simp add: fetch_parameter_def Let_def)

text \<open>
  Claim C1. Let the service answer the pages \<open>1, 2, ...\<close> of a parameter with full pages
  (100 rows or more) and then with a first page of fewer than 100 rows, all within the
  page cap. Then the parameter's loop issues the requests up to that page and no further
  one, and what it appends to \<^verbatim>\<open>all_data\<close> is one tagged frame per page, that of the
  short page included, with one frame row per result row. Nothing is appended for a page
  whose frame is empty: a page with zero results, or whose rows are all objects without
  any field (\<^verbatim>\<open>df.empty\<close>).
\<close>

theorem paging_stops_at_short_page:
  assumes "serves srv (issued st) location_id parameter start_date end_date 1 (pages @ [last_page])"
    and "list_all (\<lambda>results. 100 \<le> length results) pages"
    and "length last_page < 100"
    and "int (length pages) < max_pages"
  shows "issued (fetch_parameter srv location_id start_date end_date max_pages st parameter)
           = issued st @ page_requests location_id parameter start_date end_date 1 (length pages + 1)
       \<and> all_data (fetch_parameter srv location_id start_date end_date max_pages st parameter)
           = all_data st @ page_frames parameter pages
             @ (if list_all (\<lambda>row. row = []) last_page then []
                else [set_column (DataFrame last_page) ''parameter'' (Str parameter)])
       \<and> df_len (set_column (DataFrame last_page) ''parameter'' (Str parameter)) = length last_page"
proof -
  let ?st0 = "st\<lparr>total_results := 0\<rparr>"
  let ?st1 = "accumulate_pages location_id parameter start_date end_date 1 pages ?st0"
  let ?k = "1 + int (length pages)"
  from assms(1) have full: "serves srv (issued ?st0) location_id parameter start_date end_date 1 pages"
    and last: "get_results (srv (issued ?st1)
                 (Get_measurements location_id parameter start_date end_date 100 ?k)) = Inr last_page"
    by (simp_all add: serves_append issued_accumulate_pages)
  have "page_loop srv location_id start_date end_date parameter max_pages 1 ?st0
          = page_loop srv location_id start_date end_date parameter max_pages ?k ?st1"
    using full assms(2) assms(4) by (intro page_loop_full_pages) simp_all
  also have "\<dots> = accumulate location_id parameter start_date end_date ?k last_page ?st1"
    using assms(4) last assms(3) by (intro page_loop_short) simp_all
  finally have loop: "page_loop srv location_id start_date end_date parameter max_pages 1 ?st0
          = accumulate location_id parameter start_date end_date ?k last_page ?st1" .
  have "issued (fetch_parameter srv location_id start_date end_date max_pages st parameter)
           = issued st @ page_requests location_id parameter start_date end_date 1 (length pages + 1)"
    by (simp add: fetch_parameter_issued_eq loop issued_accumulate_pages page_requests_snoc)
  moreover have "all_data (fetch_parameter srv location_id start_date end_date max_pages st parameter)
           = all_data st @ page_frames parameter pages
             @ (if list_all (\<lambda>row. row = []) last_page then []
                else [set_column (DataFrame last_page) ''parameter'' (Str parameter)])"
    by (simp add: fetch_parameter_all_data_eq loop all_data_accumulate all_data_accumulate_pages
          page_frames_def df_empty_DataFrame)
  ultimately show ?thesis by (simp add: df_len_tagged)
qed

theorem paging_stops_at_short_page_witness:
  "serves two_page_service [] 7 ''pm25'' ''2024-01-01'' ''2024-01-31'' 1
     [replicate 100 sample_row, [sample_row]]
   \<and> issued (fetch_parameter two_page_service 7 ''2024-01-01'' ''2024-01-31'' 10
             \<lparr>issued = [], logged = [], all_data = [], total_results = 0\<rparr> ''pm25'')
     = [Get_measurements 7 ''pm25'' ''2024-01-01'' ''2024-01-31'' 100 1,
        Get_measurements 7 ''pm25'' ''2024-01-01'' ''2024-01-31'' 100 2]
   \<and> map df_len (all_data (fetch_parameter two_page_service 7 ''2024-01-01'' ''2024-01-31'' 10
             \<lparr>issued = [], logged = [], all_data = [], total_results = 0\<rparr> ''pm25'')) = [100, 1]"
proof -
  have s: "serves two_page_service
             (issued \<lparr>issued = [], logged = [], all_data = [], total_results = 0\<rparr>)
             7 ''pm25'' ''2024-01-01'' ''2024-01-31'' 1 ([replicate 100 sample_row] @ [[sample_row]])"
    by (simp add: two_page_service_def get_results_def raise_for_status_def)
  have f: "list_all (\<lambda>results. 100 \<le> length results) [replicate 100 sample_row]" by simp
  have l: "length [sample_row] < 100" by simp
  have c: "int (length [replicate 100 sample_row]) < 10" by simp
  have ne: "sample_row \<noteq> []" by (simp add: sample_row_def)
  then have ne': "\<not> list_all (\<lambda>row. row = []) (replicate 100 sample_row)"
    by (simp add: list_all_iff)
  show ?thesis
    using paging_stops_at_short_page [OF s f l c] s ne ne'
    by (simp add: page_requests_def page_frames_def df_empty_DataFrame df_len_tagged)
qed

section \<open>An error while paging\<close>

lemma page_loop_frame:
  "issued st = issued st' \<Longrightarrow>
   \<exists>fs. all_data (page_loop srv loc sd ed p mp page st) = all_data st @ fs
      \<and> all_data (page_loop srv loc sd ed p mp page st') = all_data st' @ fs
      \<and> issued (page_loop srv loc sd ed p mp page st) = issued (page_loop srv loc sd ed p mp page st')"
proof (induction "nat (mp + 1 - page)" arbitrary: page st st')
  case 0
  then have "\<not> page \<le> mp" by simp
  with "0.prems" show ?case by (simp add: page_loop_done)
next
  case (Suc n)
  then have le: "page \<le> mp" by simp
  let ?q = "Get_measurements loc p sd ed 100 page"
  show ?case
  proof (cases "get_results (srv (issued st) ?q)")
    case (Inl e)
    then have "get_results (srv (issued st') ?q) = Inl e" using Suc.prems by simp
    with Inl le Suc.prems show ?thesis by (simp add: page_loop_error)
  next
    case (Inr results)
    then have Inr': "get_results (srv (issued st') ?q) = Inr results" using Suc.prems by simp
    show ?thesis
    proof (cases "length results < 100")
      case True
      with le Inr Inr' Suc.prems show ?thesis
        by (simp add: page_loop_short all_data_accumulate)
    next
      case False
      then have full: "100 \<le> length results" by simp
      let ?a = "accumulate loc p sd ed page results st"
      let ?a' = "accumulate loc p sd ed page results st'"
      have n: "n = nat (mp + 1 - (page + 1))" using Suc.hyps(2) by simp
      have "issued ?a = issued ?a'" using Suc.prems by simp
      from Suc.hyps(1)[OF n this]
      obtain fs where fs: "all_data (page_loop srv loc sd ed p mp (page + 1) ?a) = all_data ?a @ fs"
        "all_data (page_loop srv loc sd ed p mp (page + 1) ?a') = all_data ?a' @ fs"
        "issued (page_loop srv loc sd ed p mp (page + 1) ?a) = issued (page_loop srv loc sd ed p mp (page + 1) ?a')"
        by blast
      have "page_loop srv loc sd ed p mp page st = page_loop srv loc sd ed p mp (page + 1) ?a"
        using le Inr full by (rule page_loop_full)
      moreover have "page_loop srv loc sd ed p mp page st' = page_loop srv loc sd ed p mp (page + 1) ?a'"
        using le Inr' full by (rule page_loop_full)
      ultimately show ?thesis using fs by (simp add: all_data_accumulate)
    qed
  qed
qed

lemma fetch_parameter_frame:
  assumes "issued st = issued st'"
  shows "\<exists>fs. all_data (fetch_parameter srv loc sd ed mp st p) = all_data st @ fs
      \<and> all_data (fetch_parameter srv loc sd ed mp st' p) = all_data st' @ fs
      \<and> issued (fetch_parameter srv loc sd ed mp st p) = issued (fetch_parameter srv loc sd ed mp st' p)"
proof -
  from assms have "issued (st\<lparr>total_results := 0\<rparr>) = issued (st'\<lparr>total_results := 0\<rparr>)" by simp
  from page_loop_frame[OF this, of srv loc sd ed p mp 1]
  show ?thesis by (simp add: fetch_parameter_issued_eq fetch_parameter_all_data_eq)
qed

lemma fetch_parameters_frame:
  "issued st = issued st' \<Longrightarrow>
   \<exists>fs. all_data (fetch_parameters srv loc sd ed mp st ps) = all_data st @ fs
      \<and> all_data (fetch_parameters srv loc sd ed mp st' ps) = all_data st' @ fs"
proof (induction ps arbitrary: st st')
  case Nil
  show ?case by (simp add: fetch_parameters_def)
next
  case (Cons p ps)
  let ?s = "fetch_parameter srv loc sd ed mp st p"
  let ?s' = "fetch_parameter srv loc sd ed mp st' p"
  from fetch_parameter_frame[OF Cons.prems, of srv loc sd ed mp p]
  obtain fs where fs: "all_data ?s = all_data st @ fs" "all_data ?s' = all_data st' @ fs"
    "issued ?s = issued ?s'" by blast
  from Cons.IH[OF fs(3)]
  obtain gs where gs: "all_data (fetch_parameters srv loc sd ed mp ?s ps) = all_data ?s @ gs"
    "all_data (fetch_parameters srv loc sd ed mp ?s' ps) = all_data ?s' @ gs" by blast
  have "fetch_parameters srv loc sd ed mp st (p # ps) = fetch_parameters srv loc sd ed mp ?s ps"
    "fetch_parameters srv loc sd ed mp st' (p # ps) = fetch_parameters srv loc sd ed mp ?s' ps"
    by (simp_all add: fetch_parameters_def)
  with fs gs show ?case by simp
qed

lemma fetch_parameters_fresh:
  "all_data (fetch_parameters srv loc sd ed mp st ps)
     = all_data st @ all_data (fetch_parameters srv loc sd ed mp
         \<lparr>issued = issued st, logged = [], all_data = [], total_results = 0\<rparr> ps)"
proof -
  have "issued st = issued \<lparr>issued = issued st, logged = [], all_data = [], total_results = 0\<rparr>"
    by simp
  from fetch_parameters_frame[OF this, of srv loc sd ed mp ps]
  show ?thesis by auto
qed

text \<open>The exceptions that the reshape can raise.\<close>

lemma and_then_Inl:
  "and_then r f = Inl e \<longleftrightarrow> r = Inl e \<or> (\<exists>x. r = Inr x \<and> f x = Inl e)"
  by (cases r) (simp_all add: and_then_def)

lemma and_then_Inr:
  "and_then r f = Inr y \<longleftrightarrow> (\<exists>x. r = Inr x \<and> f x = Inr y)"
  by (cases r) (simp_all add: and_then_def)

lemma sequence_Inl:
  "sequence (map f xs) = Inl e \<Longrightarrow> \<exists>x\<in>set xs. f x = Inl e"
  by (induction xs) (auto simp: and_then_Inl)

lemma to_datetime_error:
  "to_datetime parse x = Inl e \<Longrightarrow> e = ValueError \<or> e = TypeError \<or> e = OverflowError"
  by (auto simp: to_datetime_def split: reading.splits)

lemma select_columns_error:
  "select_columns df cs = Inl e \<Longrightarrow> \<exists>ks. e = KeyError ks"
  by (auto simp: select_columns_def split: list.splits)

lemma aggregate_error:
  "aggregate idx es = Inl e \<Longrightarrow> e = TypeError"
  unfolding aggregate_def Let_def by (simp split: if_splits)

lemma pivot_table_error:
  "pivot_table df idx col val = Inl e \<Longrightarrow> (\<exists>ks. e = KeyError ks) \<or> e = TypeError"
  unfolding pivot_table_def by (auto split: list.splits dest: aggregate_error)

lemma reset_index_error:
  "reset_index pv = Inl e \<Longrightarrow> e = ValueError"
  by (auto simp: reset_index_def split: if_splits)

lemma process_data_error:
  assumes "process_data parse df = Inl e"
  shows "e \<noteq> RequestException txt"
proof -
  from assms have "df_empty df \<or> (\<exists>ks. e = KeyError ks) \<or> e = TypeError \<or> e = ValueError
      \<or> e = OverflowError"
    by (auto simp: process_data_def and_then_Inl split: if_splits
          dest!: select_columns_error sequence_Inl to_datetime_error pivot_table_error reset_index_error)
  moreover have "\<not> df_empty df" using assms by (auto simp: process_data_def)
  ultimately show ?thesis by auto
qed

lemma fetch_never_request_exception:
  "fst (fetch_air_quality_data parse srv loc sd ed parameters mp io) \<noteq> Inl (RequestException txt)"
  by (auto simp: fetch_air_quality_data_def Let_def and_then_Inl pd_concat_def
        dest: process_data_error)

text \<open>
  Claim C3. Let the request for a page of one parameter raise (transport failure, error
  status or undecodable body) after a number of full pages. Then the parameter's loop
  ends with that request; the frames of the earlier pages stay in \<^verbatim>\<open>all_data\<close>; the error
  is logged; the loops of the remaining parameters run, and what they append is what
  they append from the same request history with nothing accumulated before. No call of
  \<^verbatim>\<open>fetch_air_quality_data\<close> lets a \<^verbatim>\<open>RequestException\<close> reach its caller.
\<close>

theorem page_error_ends_only_that_parameter:
  assumes "serves srv (issued st) location_id parameter start_date end_date 1 pages"
    and "list_all (\<lambda>results. 100 \<le> length results) pages"
    and "int (length pages) < max_pages"
    and "get_results (srv (issued st @ page_requests location_id parameter start_date end_date 1 (length pages))
           (Get_measurements location_id parameter start_date end_date 100 (1 + int (length pages))))
         = Inl e"
  shows "issued (fetch_parameter srv location_id start_date end_date max_pages st parameter)
           = issued st @ page_requests location_id parameter start_date end_date 1 (length pages + 1)
       \<and> all_data (fetch_parameter srv location_id start_date end_date max_pages st parameter)
           = all_data st @ page_frames parameter pages
       \<and> Error_fetching parameter location_id (1 + int (length pages))
           \<in> set (logged (fetch_parameter srv location_id start_date end_date max_pages st parameter))
       \<and> all_data (fetch_parameters srv location_id start_date end_date max_pages st (parameter # others))
           = all_data st @ page_frames parameter pages
             @ all_data (fetch_parameters srv location_id start_date end_date max_pages
                 \<lparr>issued = issued st
                            @ page_requests location_id parameter start_date end_date 1 (length pages + 1),
                  logged = [], all_data = [], total_results = 0\<rparr> others)
       \<and> fst (fetch_air_quality_data parse srv location_id start_date end_date parameters max_pages io)
           \<noteq> Inl (RequestException txt)"
proof -
  let ?st0 = "st\<lparr>total_results := 0\<rparr>"
  let ?st1 = "accumulate_pages location_id parameter start_date end_date 1 pages ?st0"
  let ?k = "1 + int (length pages)"
  let ?q = "Get_measurements location_id parameter start_date end_date 100 ?k"
  let ?f = "fetch_parameter srv location_id start_date end_date max_pages st parameter"
  have full: "serves srv (issued ?st0) location_id parameter start_date end_date 1 pages"
    using assms(1) by simp
  have err: "get_results (srv (issued ?st1) ?q) = Inl e"
    using assms(4) by (simp add: issued_accumulate_pages)
  have "page_loop srv location_id start_date end_date parameter max_pages 1 ?st0
          = page_loop srv location_id start_date end_date parameter max_pages ?k ?st1"
    using full assms(2) assms(3) by (intro page_loop_full_pages) simp_all
  also have "\<dots> = ?st1\<lparr>issued := issued ?st1 @ [?q],
                        logged := logged ?st1 @ [Error_fetching parameter location_id ?k]
                                    @ response_text_log e\<rparr>"
    using assms(3) err by (intro page_loop_error) simp_all
  finally have loop: "page_loop srv location_id start_date end_date parameter max_pages 1 ?st0
          = ?st1\<lparr>issued := issued ?st1 @ [?q],
                 logged := logged ?st1 @ [Error_fetching parameter location_id ?k]
                             @ response_text_log e\<rparr>" .
  have i: "issued ?f
           = issued st @ page_requests location_id parameter start_date end_date 1 (length pages + 1)"
    by (simp add: fetch_parameter_issued_eq loop issued_accumulate_pages page_requests_snoc)
  have a: "all_data ?f = all_data st @ page_frames parameter pages"
    by (simp add: fetch_parameter_all_data_eq loop all_data_accumulate_pages)
  have l: "Error_fetching parameter location_id ?k \<in> set (logged ?f)"
    by (simp add: fetch_parameter_def Let_def loop)
  have "fetch_parameters srv location_id start_date end_date max_pages st (parameter # others)
          = fetch_parameters srv location_id start_date end_date max_pages ?f others"
    by (simp add: fetch_parameters_def)
  then have r: "all_data (fetch_parameters srv location_id start_date end_date max_pages st (parameter # others))
           = all_data st @ page_frames parameter pages
             @ all_data (fetch_parameters srv location_id start_date end_date max_pages
                 \<lparr>issued = issued st
                            @ page_requests location_id parameter start_date end_date 1 (length pages + 1),
                  logged = [], all_data = [], total_results = 0\<rparr> others)"
    using fetch_parameters_fresh[of srv location_id start_date end_date max_pages ?f others]
    by (simp add: i a)
  show ?thesis
    using i a l r fetch_never_request_exception by blast
qed

theorem page_error_ends_only_that_parameter_witness:
  "serves failing_service [] 7 ''pm25'' ''2024-01-01'' ''2024-01-31'' 1 [replicate 100 sample_row]
   \<and> get_results (failing_service [Get_measurements 7 ''pm25'' ''2024-01-01'' ''2024-01-31'' 100 1]
        (Get_measurements 7 ''pm25'' ''2024-01-01'' ''2024-01-31'' 100 2))
       = Inl (RequestException (Some ''Service Unavailable''))
   \<and> map df_len (all_data (fetch_parameters failing_service 7 ''2024-01-01'' ''2024-01-31'' 10
         \<lparr>issued = [], logged = [], all_data = [], total_results = 0\<rparr> [''pm25'', ''o3''])) = [100, 1]"
proof -
  let ?st = "\<lparr>issued = [], logged = [], all_data = [], total_results = 0\<rparr>"
  have s: "serves failing_service (issued ?st) 7 ''pm25'' ''2024-01-01'' ''2024-01-31'' 1
             [replicate 100 sample_row]"
    by (simp add: failing_service_def get_results_def raise_for_status_def)
  have f: "list_all (\<lambda>results. 100 \<le> length results) [replicate 100 sample_row]" by simp
  have c: "int (length [replicate 100 sample_row]) < 10" by simp
  have e: "get_results (failing_service
              (issued ?st @ page_requests 7 ''pm25'' ''2024-01-01'' ''2024-01-31'' 1
                 (length [replicate 100 sample_row]))
              (Get_measurements 7 ''pm25'' ''2024-01-01'' ''2024-01-31'' 100
                 (1 + int (length [replicate 100 sample_row]))))
           = Inl (RequestException (Some ''Service Unavailable''))"
    by (simp add: failing_service_def get_results_def raise_for_status_def)
  have ne: "sample_row \<noteq> []" by (simp add: sample_row_def)
  then have ne': "\<not> list_all (\<lambda>row. row = []) (replicate 100 sample_row)"
    by (simp add: list_all_iff)
  let ?st' = "\<lparr>issued = [Get_measurements 7 ''pm25'' ''2024-01-01'' ''2024-01-31'' 100 1,
                          Get_measurements 7 ''pm25'' ''2024-01-01'' ''2024-01-31'' 100 2],
               logged = [], all_data = [], total_results = 0\<rparr>"
  have o3: "all_data (fetch_parameters failing_service 7 ''2024-01-01'' ''2024-01-31'' 10 ?st' [''o3''])
            = page_frames ''o3'' [[sample_row]]"
  proof -
    have "page_loop failing_service 7 ''2024-01-01'' ''2024-01-31'' ''o3'' 10 1 ?st'
            = accumulate 7 ''o3'' ''2024-01-01'' ''2024-01-31'' 1 [sample_row] ?st'"
      by (rule page_loop_short)
         (simp_all add: failing_service_def get_results_def raise_for_status_def)
    then show ?thesis
      by (simp add: fetch_parameters_def fetch_parameter_all_data_eq all_data_accumulate)
  qed
  show ?thesis
    using page_error_ends_only_that_parameter [OF s f c e, of "[''o3'']"] s e ne ne' o3
    by (simp add: page_requests_def page_frames_def df_empty_DataFrame df_len_tagged)
qed

section \<open>The reshape, step by step\<close>

lemma sequence_Inr:
  "sequence (map f xs) = Inr ys \<Longrightarrow> map f xs = map Inr ys"
proof (induction xs arbitrary: ys)
  case Nil
  then show ?case by simp
next
  case (Cons x xs)
  from Cons.prems obtain y ys' where "f x = Inr y" "sequence (map f xs) = Inr ys'" "ys = y # ys'"
    unfolding list.map sequence.simps and_then_Inr by blast
  with Cons.IH[of ys'] show ?case by simp
qed

lemma map_Inr_conv:
  "map f xs = map Inr ys \<Longrightarrow> ys = map (\<lambda>x. case f x of Inl e \<Rightarrow> z | Inr d \<Rightarrow> d) xs"
proof (induction xs arbitrary: ys)
  case Nil
  then show ?case by simp
next
  case (Cons x xs)
  then obtain y ys' where "ys = y # ys'" "f x = Inr y" "map f xs = map Inr ys'"
    by (cases ys) auto
  with Cons.IH[of ys'] show ?case by simp
qed

lemma lookup_selected:
  "lookup_cell [''date'', ''parameter'', ''value'', ''unit'', ''location'', ''city'', ''country'']
     [a, b, c, d, e, f, g] x =
     (if x = ''date'' then a else if x = ''parameter'' then b else if x = ''value'' then c
      else if x = ''unit'' then d else if x = ''location'' then e else if x = ''city'' then f
      else if x = ''country'' then g else NaN)"
  by (simp add: lookup_cell_def)

lemma process_data_Inr:
  assumes "process_data parse df = Inr t" and "\<not> df_empty df"
  shows "and_then (aggregate key_columns (map (row_entry parse df) (rows df))) reset_index = Inr t"
    and "\<forall>r\<in>set (rows df). \<exists>d. to_datetime parse (utc_of (lookup_cell (columns df) r ''date'')) = Inr d"
proof -
  let ?seven = "[''date'', ''parameter'', ''value'', ''unit'', ''location'', ''city'', ''country'']"
  let ?L = "\<lambda>r c. lookup_cell (columns df) r c"
  from assms have "and_then (select_columns df ?seven)
          (\<lambda>processed_df.
             and_then (sequence (map (\<lambda>x. to_datetime parse (utc_of x))
                                   (column_values processed_df ''date'')))
               (\<lambda>dates.
                  and_then (pivot_table (assign_column processed_df ''date'' dates)
                              key_columns ''parameter'' ''value'')
                    reset_index)) = Inr t"
    by (simp add: process_data_def)
  then obtain pdf dates where
    sel: "select_columns df ?seven = Inr pdf"
    and seq: "sequence (map (\<lambda>x. to_datetime parse (utc_of x)) (column_values pdf ''date'')) = Inr dates"
    and piv: "and_then (pivot_table (assign_column pdf ''date'' dates) key_columns ''parameter'' ''value'')
                reset_index = Inr t"
    unfolding and_then_Inr [of "select_columns df ?seven"] and_then_Inr [of "sequence _"]
    by blast
  from sel have pdf: "pdf = \<lparr>columns = ?seven, rows = map (\<lambda>r. map (?L r) ?seven) (rows df)\<rparr>"
    by (auto simp: select_columns_def split: list.splits)
  have cv: "column_values pdf ''date'' = map (\<lambda>r. ?L r ''date'') (rows df)"
    by (simp add: pdf column_values_def lookup_selected)
  have conv: "map (\<lambda>r. to_datetime parse (utc_of (?L r ''date''))) (rows df) = map Inr dates"
    using sequence_Inr[OF seq] by (simp add: cv comp_def)
  show "\<forall>r\<in>set (rows df). \<exists>d. to_datetime parse (utc_of (?L r ''date'')) = Inr d"
  proof
    fix r assume "r \<in> set (rows df)"
    then have "to_datetime parse (utc_of (?L r ''date''))
        \<in> set (map (\<lambda>r. to_datetime parse (utc_of (?L r ''date''))) (rows df))"
      by simp
    then have "to_datetime parse (utc_of (?L r ''date'')) \<in> set (map Inr dates)"
      by (simp only: conv)
    then show "\<exists>d. to_datetime parse (utc_of (?L r ''date'')) = Inr d" by auto
  qed
  from conv have dates: "dates = map (\<lambda>r. converted parse (?L r ''date'')) (rows df)"
    unfolding converted_def by (rule map_Inr_conv)
  have asg: "assign_column pdf ''date'' dates =
      \<lparr>columns = ?seven,
       rows = map (\<lambda>r. [converted parse (?L r ''date''), ?L r ''parameter'', ?L r ''value'', ?L r ''unit'',
                          ?L r ''location'', ?L r ''city'', ?L r ''country'']) (rows df)\<rparr>"
    by (simp add: assign_column_def pdf dates zip_map_map zip_same_conv_map comp_def)
  have ent: "entries (assign_column pdf ''date'' dates) key_columns ''parameter'' ''value''
      = map (row_entry parse df) (rows df)"
    by (simp add: asg entries_def key_columns_def row_entry_def lookup_selected comp_def)
  have "pivot_table (assign_column pdf ''date'' dates) key_columns ''parameter'' ''value''
      = aggregate key_columns (map (row_entry parse df) (rows df))"
    unfolding pivot_table_def ent by (simp add: asg key_columns_def)
  with piv show "and_then (aggregate key_columns (map (row_entry parse df) (rows df))) reset_index = Inr t"
    by simp
qed

lemma aggregate_Inr:
  assumes "aggregate idx es = Inr pv"
  shows "pv = \<lparr>index_names = idx,
               index_keys = sort_key (map cell_ord) (remdups (map e_key (counted es))),
               labels = sort (remdups (map (\<lambda>e. str_of (e_label e)) (counted es))),
               table = map (\<lambda>k. map (\<lambda>l. mean (map (\<lambda>e. num_of (e_value e))
                              (filter (\<lambda>e. e_key e = k \<and> e_label e = Str l) (counted es))))
                          (sort (remdups (map (\<lambda>e. str_of (e_label e)) (counted es)))))
                         (sort_key (map cell_ord) (remdups (map e_key (counted es))))\<rparr>"
    and "\<forall>e\<in>set (counted es). is_str (e_label e)"
proof -
  let ?valid = "filter (\<lambda>e. NaN \<notin> set (e_key e) \<and> e_label e \<noteq> NaN) es"
  have ok: "\<not> (list_ex (\<lambda>e. list_ex is_dict (e_key e) \<or> \<not> is_str (e_label e)) ?valid
            \<or> list_ex (\<lambda>e. \<not> is_num (e_value e) \<and> e_value e \<noteq> NaN) ?valid)"
    using assms unfolding aggregate_def Let_def by (simp split: if_splits)
  with assms show "pv = \<lparr>index_names = idx,
               index_keys = sort_key (map cell_ord) (remdups (map e_key (counted es))),
               labels = sort (remdups (map (\<lambda>e. str_of (e_label e)) (counted es))),
               table = map (\<lambda>k. map (\<lambda>l. mean (map (\<lambda>e. num_of (e_value e))
                              (filter (\<lambda>e. e_key e = k \<and> e_label e = Str l) (counted es))))
                          (sort (remdups (map (\<lambda>e. str_of (e_label e)) (counted es)))))
                         (sort_key (map cell_ord) (remdups (map e_key (counted es))))\<rparr>"
    unfolding aggregate_def Let_def counted_def by (simp only: if_False sum.inject)
  from ok show "\<forall>e\<in>set (counted es). is_str (e_label e)"
    by (auto simp: counted_def list_ex_iff)
qed

lemma is_str_conv: "is_str x \<longleftrightarrow> (\<exists>s. x = Str s)"
  by (cases x) (simp_all add: is_str_def)

lemma counted_row_entry:
  "set (counted (map (row_entry parse df) (rows df)))
     = {row_entry parse df r | r. r \<in> set (rows df) \<and> contributes parse df r
                                 \<and> lookup_cell (columns df) r ''parameter'' \<noteq> NaN}"
proof -
  have "\<And>r. (is_num (e_value (row_entry parse df r)) \<and> NaN \<notin> set (e_key (row_entry parse df r))
        \<and> e_label (row_entry parse df r) \<noteq> NaN)
      \<longleftrightarrow> (contributes parse df r \<and> lookup_cell (columns df) r ''parameter'' \<noteq> NaN)"
    by (auto simp: row_entry_def contributes_def)
  then show ?thesis
    by (auto simp: counted_def)
qed

lemma reshape_table:
  assumes "process_data parse df = Inr t" and "\<not> df_empty df"
  shows "t = \<lparr>columns = key_columns @ table_labels parse df,
              rows = map (\<lambda>k. k @ map (table_cell parse df k) (table_labels parse df))
                       (table_keys parse df)\<rparr>"
    and "set key_columns \<inter> set (table_labels parse df) = {}"
proof -
  let ?es = "map (row_entry parse df) (rows df)"
  from process_data_Inr(1)[OF assms] obtain pv where
    agg: "aggregate key_columns ?es = Inr pv" and rst: "reset_index pv = Inr t"
    unfolding and_then_Inr by blast
  note pv = aggregate_Inr(1)[OF agg]
  have names: "index_names pv = key_columns" "labels pv = table_labels parse df"
    "index_keys pv = table_keys parse df"
    "table pv = map (\<lambda>k. map (table_cell parse df k) (table_labels parse df)) (table_keys parse df)"
    by (subst pv, simp add: table_labels_def table_keys_def table_cell_def)+
  from rst have no: "\<not> list_ex (\<lambda>n. n \<in> set (labels pv)) (index_names pv)"
    and t: "t = \<lparr>columns = index_names pv @ labels pv,
                  rows = map (\<lambda>(k, cs). k @ cs) (zip (index_keys pv) (table pv))\<rparr>"
    by (auto simp: reset_index_def split: if_splits)
  from no show "set key_columns \<inter> set (table_labels parse df) = {}"
    by (auto simp: names list_ex_iff)
  show "t = \<lparr>columns = key_columns @ table_labels parse df,
              rows = map (\<lambda>k. k @ map (table_cell parse df k) (table_labels parse df))
                       (table_keys parse df)\<rparr>"
    unfolding t names by (simp add: zip_map2 zip_same_conv_map comp_def)
qed

lemma table_labels_set:
  assumes "process_data parse df = Inr t" and "\<not> df_empty df"
  shows "set (table_labels parse df)
       = {p. \<exists>r\<in>set (rows df). contributes parse df r \<and> lookup_cell (columns df) r ''parameter'' = Str p}"
proof -
  let ?es = "map (row_entry parse df) (rows df)"
  from process_data_Inr(1)[OF assms] obtain pv where
    agg: "aggregate key_columns ?es = Inr pv"
    unfolding and_then_Inr by blast
  note strs = aggregate_Inr(2)[OF agg]
  note cnt = counted_row_entry[of parse df]
  show ?thesis
  proof (rule set_eqI, rule iffI)
    fix p assume "p \<in> set (table_labels parse df)"
    then obtain e where e: "e \<in> set (counted ?es)" "p = str_of (e_label e)"
      by (auto simp: table_labels_def)
    with strs obtain s where s: "e_label e = Str s" by (auto simp: is_str_conv)
    from e(1) cnt obtain r where r: "e = row_entry parse df r" "r \<in> set (rows df)" "contributes parse df r"
      by auto
    from s r(1) have "lookup_cell (columns df) r ''parameter'' = Str s" by (simp add: row_entry_def)
    moreover from e(2) s have "p = s" by (simp add: str_of_def)
    ultimately show "p \<in> {p. \<exists>r\<in>set (rows df). contributes parse df r
                             \<and> lookup_cell (columns df) r ''parameter'' = Str p}"
      using r by auto
  next
    fix p assume "p \<in> {p. \<exists>r\<in>set (rows df). contributes parse df r
                             \<and> lookup_cell (columns df) r ''parameter'' = Str p}"
    then obtain r where r: "r \<in> set (rows df)" "contributes parse df r"
      "lookup_cell (columns df) r ''parameter'' = Str p" by auto
    then have "row_entry parse df r \<in> set (counted ?es)" using cnt by auto
    moreover have "str_of (e_label (row_entry parse df r)) = p"
      using r(3) by (simp add: row_entry_def str_of_def)
    ultimately show "p \<in> set (table_labels parse df)"
      by (force simp: table_labels_def)
  qed
qed

lemma table_keys_length: "k \<in> set (table_keys parse df) \<Longrightarrow> length k = 4"
  by (auto simp: table_keys_def counted_def row_entry_def)

lemma table_keys_distinct: "distinct (table_keys parse df)"
  by (simp add: table_keys_def)

lemma table_labels_sorted: "sorted (table_labels parse df) \<and> distinct (table_labels parse df)"
  by (simp add: table_labels_def)

lemma lookup_cell_table:
  assumes "length ks = length k" and "p \<notin> set ks" and "p \<in> set ls"
  shows "lookup_cell (ks @ ls) (k @ map f ls) p = f p"
proof -
  have "map_of (zip ks k) p = None" using assms(1,2) by (simp add: map_of_zip_is_None)
  moreover have "map_of (zip ls (map f ls)) p = Some (f p)" using assms(3) by (simp add: map_of_zip_map)
  moreover have "zip (ks @ ls) (k @ map f ls) = zip ks k @ zip ls (map f ls)"
    using assms(1) by simp
  ultimately have "map_of (zip (ks @ ls) (k @ map f ls)) p = Some (f p)"
    by (simp only: map_of_append map_add_def option.case)
  then show ?thesis by (simp only: lookup_cell_def option.case)
qed

lemma mean_cases: "mean vs = NaN \<or> is_num (mean vs)"
  by (simp add: mean_def is_num_def)

lemma mean_is_num: "vs \<noteq> [] \<Longrightarrow> is_num (mean vs)"
  by (simp add: mean_def is_num_def)

lemma table_populated:
  assumes "process_data parse df = Inr t" and "\<not> df_empty df"
    and "r \<in> set (rows df)" and "contributes parse df r"
    and "lookup_cell (columns df) r ''parameter'' = Str p"
  shows "\<exists>row\<in>set (rows t). take 4 row = e_key (row_entry parse df r)
            \<and> is_num (lookup_cell (columns t) row p)"
proof -
  let ?es = "map (row_entry parse df) (rows df)"
  let ?e = "row_entry parse df r"
  let ?k = "e_key ?e"
  let ?row = "?k @ map (table_cell parse df ?k) (table_labels parse df)"
  note cnt = counted_row_entry[of parse df]
  have e: "?e \<in> set (counted ?es)" using cnt assms(3-5) by auto
  then have k: "?k \<in> set (table_keys parse df)" by (force simp: table_keys_def)
  have p: "p \<in> set (table_labels parse df)"
    using table_labels_set[OF assms(1,2)] assms(3-5) by auto
  with reshape_table(2)[OF assms(1,2)] have pk: "p \<notin> set key_columns" by auto
  have len: "length key_columns = length ?k" by (simp add: key_columns_def row_entry_def)
  have "e_label ?e = Str p" using assms(5) by (simp add: row_entry_def)
  with e have "filter (\<lambda>e. e_key e = ?k \<and> e_label e = Str p) (counted ?es) \<noteq> []"
    by (auto simp: filter_empty_conv)
  then have num: "is_num (table_cell parse df ?k p)"
    unfolding table_cell_def by (intro mean_is_num) simp
  have "?row \<in> set (rows t)" using k by (subst reshape_table(1)[OF assms(1,2)]) (simp add: image_iff)
  moreover have "take 4 ?row = ?k" by (simp add: row_entry_def)
  moreover have "lookup_cell (columns t) ?row p = table_cell parse df ?k p"
    by (subst reshape_table(1)[OF assms(1,2)]) (simp add: lookup_cell_table[OF len pk p])
  ultimately show ?thesis using num by (intro bexI[of _ ?row]) simp_all
qed

lemma table_keys_unique:
  assumes "process_data parse df = Inr t" and "\<not> df_empty df"
  shows "map (take 4) (rows t) = table_keys parse df"
proof -
  have "map (take 4) (map (\<lambda>k. k @ map (table_cell parse df k) (table_labels parse df))
           (table_keys parse df)) = table_keys parse df"
    by (simp add: comp_def table_keys_length map_idI)
  then show ?thesis by (subst reshape_table(1)[OF assms]) simp
qed

lemma page_loop_all_data_inv:
  assumes "list_all P (all_data st)"
    and "\<And>results. \<not> df_empty (DataFrame results) \<Longrightarrow>
           P (set_column (DataFrame results) ''parameter'' (Str p))"
  shows "list_all P (all_data (page_loop srv loc sd ed p mp page st))"
proof -
  obtain fs where fs: "all_data (page_loop srv loc sd ed p mp page st) = all_data st @ fs"
    using page_loop_frame[OF refl] by blast
  have "list_all P fs"
    using fs
  proof (induction "nat (mp + 1 - page)" arbitrary: page st fs)
    case 0
    then have "\<not> page \<le> mp" by simp
    with "0.prems" show ?case by (simp add: page_loop_done)
  next
    case (Suc n)
    then have le: "page \<le> mp" by simp
    let ?q = "Get_measurements loc p sd ed 100 page"
    show ?case
    proof (cases "get_results (srv (issued st) ?q)")
      case (Inl e)
      with le Suc.prems show ?thesis by (simp add: page_loop_error)
    next
      case (Inr results)
      have one: "list_all P (page_frames p [results])"
        using assms(2) by (simp add: page_frames_def)
      show ?thesis
      proof (cases "length results < 100")
        case True
        with le Inr Suc.prems one show ?thesis
          by (simp add: page_loop_short all_data_accumulate)
      next
        case False
        then have full: "100 \<le> length results" by simp
        let ?a = "accumulate loc p sd ed page results st"
        have n: "n = nat (mp + 1 - (page + 1))" using Suc.hyps(2) by simp
        obtain gs where gs: "all_data (page_loop srv loc sd ed p mp (page + 1) ?a) = all_data ?a @ gs"
          using page_loop_frame[OF refl] by blast
        from Suc.hyps(1)[OF n gs] have "list_all P gs" .
        moreover have "page_loop srv loc sd ed p mp page st = page_loop srv loc sd ed p mp (page + 1) ?a"
          using le Inr full by (rule page_loop_full)
        ultimately show ?thesis using Suc.prems gs one by (auto simp: all_data_accumulate)
      qed
    qed
  qed
  with assms(1) fs show ?thesis by simp
qed

lemma tagged_not_empty:
  "\<not> df_empty (DataFrame results) \<Longrightarrow> \<not> df_empty (set_column (DataFrame results) c v)"
  by (auto simp: df_empty_def set_column_def)

lemma fetch_parameters_not_empty:
  "list_all (\<lambda>f. \<not> df_empty f) (all_data st) \<Longrightarrow>
   list_all (\<lambda>f. \<not> df_empty f) (all_data (fetch_parameters srv loc sd ed mp st ps))"
proof (induction ps arbitrary: st)
  case Nil
  then show ?case by (simp add: fetch_parameters_def)
next
  case (Cons p ps)
  have "list_all (\<lambda>f. \<not> df_empty f) (all_data (fetch_parameter srv loc sd ed mp st p))"
    unfolding fetch_parameter_all_data_eq
    using Cons.prems by (intro page_loop_all_data_inv tagged_not_empty) simp_all
  from Cons.IH[OF this] show ?case by (simp add: fetch_parameters_def)
qed

lemma pd_concat_not_empty:
  assumes "pd_concat dfs = Inr df" and "list_all (\<lambda>f. \<not> df_empty f) dfs"
  shows "\<not> df_empty df"
proof -
  from assms(1) have ne: "dfs \<noteq> []" by (auto simp: pd_concat_def)
  then obtain f fs where dfs: "dfs = f # fs" by (cases dfs) auto
  with assms(2) have f: "columns f \<noteq> []" "rows f \<noteq> []" by (auto simp: df_empty_def)
  from assms(1) ne have df: "df = \<lparr>columns = unique (concat (map columns dfs)),
      rows = concat (map (\<lambda>df. map (\<lambda>r. map (lookup_cell (columns df) r)
               (unique (concat (map columns dfs)))) (rows df)) dfs)\<rparr>"
    by (auto simp: pd_concat_def Let_def)
  show ?thesis
    by (subst df) (use f dfs in \<open>simp add: df_empty_def\<close>)
qed

lemma fetch_result:
  assumes "pd_concat (all_data (collect srv loc sd ed parameters mp io)) = Inr df"
    and "fst (fetch_air_quality_data parse srv loc sd ed parameters mp io) = Inr t"
  shows "process_data parse df = Inr t" and "\<not> df_empty df"
proof -
  let ?c = "collect srv loc sd ed parameters mp io"
  from assms(1) have ne: "all_data ?c \<noteq> []" by (auto simp: pd_concat_def)
  with assms show "process_data parse df = Inr t"
    by (simp add: fetch_air_quality_data_def Let_def and_then_def)
  have "list_all (\<lambda>f. \<not> df_empty f) (all_data ?c)"
    unfolding collect_def by (rule fetch_parameters_not_empty) simp
  with assms(1) show "\<not> df_empty df" by (rule pd_concat_not_empty)
qed

section \<open>Two values under one key and parameter\<close>




section \<open>The shape of the table that \<^verbatim>\<open>fetch_air_quality_data\<close> returns\<close>

text \<open>
  Claim C7, as the code has it. Let the accumulated raw collection be non-empty, \<open>df\<close> its
  concatenation, and let \<^verbatim>\<open>fetch_air_quality_data\<close> return the table \<open>t\<close>. Then
  \<^item> the columns of \<open>t\<close> are the four key columns (date, location, city, country)
    followed by one column, in sorted order and without repetition, for each parameter
    that has an accumulated row whose date \<^verbatim>\<open>pd.to_datetime\<close> reads as a timestamp,
    whose location, city and country are present and whose value is a number;
  \<^item> no two rows of \<open>t\<close> have the same composite key, and every row has one cell per
    column;
  \<^item> every such raw row has exactly one row of \<open>t\<close> with its composite key, and that row
    holds a number in the column of the raw row's parameter. So raw rows of two
    parameters at one composite key fill both columns of a single row.
\<close>

theorem reshaped_table_columns_and_keys:
  assumes "pd_concat (all_data (collect srv location_id start_date end_date parameters max_pages io))
             = Inr df"
    and "fst (fetch_air_quality_data parse srv location_id start_date end_date parameters max_pages io)
             = Inr t"
  shows "(\<exists>ps. columns t = key_columns @ ps \<and> sorted ps \<and> distinct ps
              \<and> set ps = {p. \<exists>r\<in>set (rows df). contributes parse df r
                                \<and> lookup_cell (columns df) r ''parameter'' = Str p})
       \<and> distinct (map (take 4) (rows t))
       \<and> (\<forall>row\<in>set (rows t). length row = length (columns t))
       \<and> (\<forall>r\<in>set (rows df). \<forall>p.
             contributes parse df r \<and> lookup_cell (columns df) r ''parameter'' = Str p \<longrightarrow>
               (\<exists>!row. row \<in> set (rows t) \<and> take 4 row = e_key (row_entry parse df r))
               \<and> (\<forall>row\<in>set (rows t). take 4 row = e_key (row_entry parse df r) \<longrightarrow>
                      is_num (lookup_cell (columns t) row p)))"
proof -
  note pd = fetch_result[OF assms]
  note tab = reshape_table[OF pd]
  have cols: "\<exists>ps. columns t = key_columns @ ps \<and> sorted ps \<and> distinct ps
              \<and> set ps = {p. \<exists>r\<in>set (rows df). contributes parse df r
                                \<and> lookup_cell (columns df) r ''parameter'' = Str p}"
  proof (intro exI conjI)
    show "columns t = key_columns @ table_labels parse df" by (subst tab(1)) simp
    show "sorted (table_labels parse df)" "distinct (table_labels parse df)"
      using table_labels_sorted by auto
    show "set (table_labels parse df) = {p. \<exists>r\<in>set (rows df). contributes parse df r
                                \<and> lookup_cell (columns df) r ''parameter'' = Str p}"
      by (rule table_labels_set[OF pd])
  qed
  have dist: "distinct (map (take 4) (rows t))"
    by (simp add: table_keys_unique[OF pd] table_keys_distinct)
  have lens: "\<forall>row\<in>set (rows t). length row = length (columns t)"
    by (subst (1 2) tab(1)) (auto simp: table_keys_length key_columns_def)
  have pop: "\<forall>r\<in>set (rows df). \<forall>p.
             contributes parse df r \<and> lookup_cell (columns df) r ''parameter'' = Str p \<longrightarrow>
               (\<exists>!row. row \<in> set (rows t) \<and> take 4 row = e_key (row_entry parse df r))
               \<and> (\<forall>row\<in>set (rows t). take 4 row = e_key (row_entry parse df r) \<longrightarrow>
                      is_num (lookup_cell (columns t) row p))"
  proof (intro ballI allI impI)
    fix r p assume r: "r \<in> set (rows df)"
      and c: "contributes parse df r \<and> lookup_cell (columns df) r ''parameter'' = Str p"
    from table_populated[OF pd r] c obtain row where row: "row \<in> set (rows t)"
      "take 4 row = e_key (row_entry parse df r)" "is_num (lookup_cell (columns t) row p)"
      by blast
    have uniq: "\<And>row'. row' \<in> set (rows t) \<Longrightarrow> take 4 row' = e_key (row_entry parse df r) \<Longrightarrow> row' = row"
    proof -
      fix row' assume "row' \<in> set (rows t)" "take 4 row' = e_key (row_entry parse df r)"
      moreover from dist have "inj_on (take 4) (set (rows t))" by (simp add: distinct_map)
      ultimately show "row' = row"
        using row(1,2) by (simp add: inj_on_def)
    qed
    show "(\<exists>!row. row \<in> set (rows t) \<and> take 4 row = e_key (row_entry parse df r))
               \<and> (\<forall>row\<in>set (rows t). take 4 row = e_key (row_entry parse df r) \<longrightarrow>
                      is_num (lookup_cell (columns t) row p))"
    proof (intro conjI ex1I[of _ row] ballI impI)
      show "row \<in> set (rows t)" "take 4 row = e_key (row_entry parse df r)" by fact+
      show "\<And>row'. row' \<in> set (rows t) \<and> take 4 row' = e_key (row_entry parse df r) \<Longrightarrow> row' = row"
        using uniq by simp
      show "\<And>row'. row' \<in> set (rows t) \<Longrightarrow> take 4 row' = e_key (row_entry parse df r) \<Longrightarrow>
              is_num (lookup_cell (columns t) row' p)"
        using uniq row(3) by simp
    qed
  qed
  show ?thesis by (intro conjI; fact)
qed

text \<open>
  Claim C7 as stated promises a column for every parameter that produced an accumulated
  row. A service that has only rows with a \<^verbatim>\<open>null\<close> city for pm25: the pm25 page is
  accumulated, the grouping drops its row, and the table has no pm25 column.
\<close>

theorem null_city_parameter_has_no_column:
  "map (\<lambda>f. (column_values f ''parameter'', df_len f))
     (all_data (collect null_city_service 7 ''2024-01-01'' ''2024-01-31'' (Some [''pm25'', ''o3'']) 10
        \<lparr>issued = [], logged = []\<rparr>))
     = [([Str ''pm25''], 1), ([Str ''o3''], 1)]
   \<and> fst (fetch_air_quality_data sample_parse null_city_service 7 ''2024-01-01'' ''2024-01-31''
            (Some [''pm25'', ''o3'']) 10 \<lparr>issued = [], logged = []\<rparr>)
     = Inr \<lparr>columns = [''date'', ''location'', ''city'', ''country'', ''o3''],
            rows = [[Time 1704067200000000000, Str ''Site 1'', Str ''Chicago'', Str ''US'', Num 10]]\<rparr>"
  by code_simp

theorem reshaped_table_columns_and_keys_witness:
  "pd_concat (all_data (collect one_row_service 7 ''2024-01-01'' ''2024-01-31'' (Some [''pm25'', ''o3'']) 10
      \<lparr>issued = [], logged = []\<rparr>))
     = Inr \<lparr>columns = [''date'', ''value'', ''unit'', ''location'', ''city'', ''country'', ''parameter''],
            rows = [[Dict [(''utc'', Str ''2024-01-01T00:00:00Z'')], Num 10, Str ''ug/m3'', Str ''Site 1'',
                     Str ''Chicago'', Str ''US'', Str ''pm25''],
                    [Dict [(''utc'', Str ''2024-01-01T00:00:00Z'')], Num 10, Str ''ug/m3'', Str ''Site 1'',
                     Str ''Chicago'', Str ''US'', Str ''o3'']]\<rparr>
   \<and> fst (fetch_air_quality_data sample_parse one_row_service 7 ''2024-01-01'' ''2024-01-31''
            (Some [''pm25'', ''o3'']) 10 \<lparr>issued = [], logged = []\<rparr>)
     = Inr \<lparr>columns = [''date'', ''location'', ''city'', ''country'', ''o3'', ''pm25''],
            rows = [[Time 1704067200000000000, Str ''Site 1'', Str ''Chicago'', Str ''US'', Num 10, Num 10]]\<rparr>
   \<and> distinct (map (take 4)
        (rows \<lparr>columns = [''date'', ''location'', ''city'', ''country'', ''o3'', ''pm25''],
               rows = [[Time 1704067200000000000, Str ''Site 1'', Str ''Chicago'', Str ''US'', Num 10, Num 10]]\<rparr>))"
proof -
  have h1: "pd_concat (all_data (collect one_row_service 7 ''2024-01-01'' ''2024-01-31'' (Some [''pm25'', ''o3'']) 10
      \<lparr>issued = [], logged = []\<rparr>))
     = Inr \<lparr>columns = [''date'', ''value'', ''unit'', ''location'', ''city'', ''country'', ''parameter''],
            rows = [[Dict [(''utc'', Str ''2024-01-01T00:00:00Z'')], Num 10, Str ''ug/m3'', Str ''Site 1'',
                     Str ''Chicago'', Str ''US'', Str ''pm25''],
                    [Dict [(''utc'', Str ''2024-01-01T00:00:00Z'')], Num 10, Str ''ug/m3'', Str ''Site 1'',
                     Str ''Chicago'', Str ''US'', Str ''o3'']]\<rparr>"
    by code_simp
  have h2: "fst (fetch_air_quality_data sample_parse one_row_service 7 ''2024-01-01'' ''2024-01-31''
            (Some [''pm25'', ''o3'']) 10 \<lparr>issued = [], logged = []\<rparr>)
     = Inr \<lparr>columns = [''date'', ''location'', ''city'', ''country'', ''o3'', ''pm25''],
            rows = [[Time 1704067200000000000, Str ''Site 1'', Str ''Chicago'', Str ''US'', Num 10, Num 10]]\<rparr>"
    by code_simp
  from reshaped_table_columns_and_keys [OF h1 h2]
  have "distinct (map (take 4)
        (rows \<lparr>columns = [''date'', ''location'', ''city'', ''country'', ''o3'', ''pm25''],
               rows = [[Time 1704067200000000000, Str ''Site 1'', Str ''Chicago'', Str ''US'', Num 10, Num 10]]\<rparr>))"
    by (elim conjE)
  with h1 h2 show ?thesis by (intro conjI)
qed

section \<open>What the reshape discards\<close>

lemma table_cells_numeric:
  assumes "process_data parse df = Inr t" and "\<not> df_empty df"
  shows "\<forall>row\<in>set (rows t). \<forall>x\<in>set (drop 4 row). x = NaN \<or> is_num x"
proof -
  have "\<And>k. k \<in> set (table_keys parse df) \<Longrightarrow>
          drop 4 (k @ map (table_cell parse df k) (table_labels parse df))
            = map (table_cell parse df k) (table_labels parse df)"
    by (simp add: table_keys_length)
  moreover have "\<And>k l. table_cell parse df k l = NaN \<or> is_num (table_cell parse df k l)"
    unfolding table_cell_def by (rule mean_cases)
  ultimately show ?thesis
    by (subst reshape_table(1)[OF assms]) auto
qed

lemma table_columns_subset:
  assumes "process_data parse df = Inr t" and "\<not> df_empty df"
  shows "set (columns t) \<subseteq> set key_columns \<union> {p. Str p \<in> set (column_values df ''parameter'')}"
proof -
  have "set (table_labels parse df) \<subseteq> {p. Str p \<in> set (column_values df ''parameter'')}"
    unfolding table_labels_set[OF assms] by (force simp: column_values_def)
  then show ?thesis by (subst reshape_table(1)[OF assms]) auto
qed

text \<open>
  Claim C9, as the code has it. For a raw frame that is not empty, every column of the
  table that \<^verbatim>\<open>_process_data\<close> returns is a key column or bears the name of a parameter
  of the raw frame, and every cell outside the key columns is a mean or missing: no
  unit string reaches the table. So the table has no column named unit, value or
  parameter, unless a parameter itself bears that name.
\<close>

theorem raw_columns_do_not_reach_table:
  assumes "process_data parse df = Inr t" and "\<not> df_empty df"
  shows "set (columns t) \<subseteq> set key_columns \<union> {p. Str p \<in> set (column_values df ''parameter'')}
       \<and> (\<forall>row\<in>set (rows t). \<forall>x\<in>set (drop 4 row). x = NaN \<or> is_num x)
       \<and> (\<forall>c\<in>{''unit'', ''value'', ''parameter''}.
             Str c \<notin> set (column_values df ''parameter'') \<longrightarrow> c \<notin> set (columns t))"
proof -
  note sub = table_columns_subset[OF assms]
  have "\<forall>c\<in>{''unit'', ''value'', ''parameter''}.
             Str c \<notin> set (column_values df ''parameter'') \<longrightarrow> c \<notin> set (columns t)"
  proof (intro ballI impI)
    fix c :: string
    assume c: "c \<in> {''unit'', ''value'', ''parameter''}"
      and n: "Str c \<notin> set (column_values df ''parameter'')"
    from c have "c \<notin> set key_columns" by (auto simp: key_columns_def)
    with n sub show "c \<notin> set (columns t)" by auto
  qed
  with sub table_cells_numeric[OF assms] show ?thesis by (intro conjI)
qed

text \<open>
  Claim C9 as stated excludes a column named unit for every raw frame. A raw frame
  whose parameter is named unit is reshaped into a table with a column of that name
  (holding the mean of the values, not the unit strings).
\<close>

theorem parameter_named_unit_has_a_column:
  "\<not> df_empty \<lparr>columns = [''date'', ''value'', ''unit'', ''location'', ''city'', ''country'', ''parameter''],
               rows = [[Dict [(''utc'', Str ''2024-01-01T00:00:00Z'')], Num 10, Str ''ug/m3'', Str ''Site 1'',
                        Str ''Chicago'', Str ''US'', Str ''unit'']]\<rparr>
   \<and> process_data sample_parse
        \<lparr>columns = [''date'', ''value'', ''unit'', ''location'', ''city'', ''country'', ''parameter''],
         rows = [[Dict [(''utc'', Str ''2024-01-01T00:00:00Z'')], Num 10, Str ''ug/m3'', Str ''Site 1'',
                  Str ''Chicago'', Str ''US'', Str ''unit'']]\<rparr>
     = Inr \<lparr>columns = [''date'', ''location'', ''city'', ''country'', ''unit''],
            rows = [[Time 1704067200000000000, Str ''Site 1'', Str ''Chicago'', Str ''US'', Num 10]]\<rparr>"
  by code_simp

theorem raw_columns_do_not_reach_table_witness:
  "process_data sample_parse
        \<lparr>columns = [''date'', ''value'', ''unit'', ''location'', ''city'', ''country'', ''parameter''],
         rows = [[Dict [(''utc'', Str ''2024-01-01T00:00:00Z'')], Num 10, Str ''ug/m3'', Str ''Site 1'',
                  Str ''Chicago'', Str ''US'', Str ''pm25'']]\<rparr>
     = Inr \<lparr>columns = [''date'', ''location'', ''city'', ''country'', ''pm25''],
            rows = [[Time 1704067200000000000, Str ''Site 1'', Str ''Chicago'', Str ''US'', Num 10]]\<rparr>
   \<and> set (columns \<lparr>columns = [''date'', ''location'', ''city'', ''country'', ''pm25''],
            rows = [[Time 1704067200000000000, Str ''Site 1'', Str ''Chicago'', Str ''US'', Num 10]]\<rparr>)
       \<subseteq> set key_columns \<union> {p. Str p \<in> set (column_values
            \<lparr>columns = [''date'', ''value'', ''unit'', ''location'', ''city'', ''country'', ''parameter''],
             rows = [[Dict [(''utc'', Str ''2024-01-01T00:00:00Z'')], Num 10, Str ''ug/m3'', Str ''Site 1'',
                      Str ''Chicago'', Str ''US'', Str ''pm25'']]\<rparr> ''parameter'')}"
proof -
  let ?df = "\<lparr>columns = [''date'', ''value'', ''unit'', ''location'', ''city'', ''country'', ''parameter''],
         rows = [[Dict [(''utc'', Str ''2024-01-01T00:00:00Z'')], Num 10, Str ''ug/m3'', Str ''Site 1'',
                  Str ''Chicago'', Str ''US'', Str ''pm25'']]\<rparr>"
  have h1: "process_data sample_parse ?df
     = Inr \<lparr>columns = [''date'', ''location'', ''city'', ''country'', ''pm25''],
            rows = [[Time 1704067200000000000, Str ''Site 1'', Str ''Chicago'', Str ''US'', Num 10]]\<rparr>"
    by code_simp
  have h2: "\<not> df_empty ?df" by (simp add: df_empty_def)
  from raw_columns_do_not_reach_table [OF h1 h2]
  have "set (columns \<lparr>columns = [''date'', ''location'', ''city'', ''country'', ''pm25''],
            rows = [[Time 1704067200000000000, Str ''Site 1'', Str ''Chicago'', Str ''US'', Num 10]]\<rparr>)
       \<subseteq> set key_columns \<union> {p. Str p \<in> set (column_values ?df ''parameter'')}"
    by (elim conjE)
  with h1 show ?thesis by (intro conjI)
qed

section \<open>The reshape applied to its own output\<close>

lemma process_data_empty: "df_empty df \<Longrightarrow> process_data parse df = Inr df"
  by (simp add: process_data_def)

lemma process_data_missing_column:
  assumes "\<not> df_empty df" and "c \<notin> set (columns df)"
    and "c \<in> set [''date'', ''parameter'', ''value'', ''unit'', ''location'', ''city'', ''country'']"
  shows "\<exists>missing. process_data parse df = Inl (KeyError missing) \<and> c \<in> set missing"
proof -
  let ?seven = "[''date'', ''parameter'', ''value'', ''unit'', ''location'', ''city'', ''country'']"
  let ?missing = "filter (\<lambda>c. c \<notin> set (columns df)) ?seven"
  from assms(2,3) have in_missing: "c \<in> set ?missing" by (simp only: set_filter mem_Collect_eq simp_thms)
  then obtain m ms where ms: "?missing = m # ms" by (cases ?missing) auto
  then have "select_columns df ?seven = Inl (KeyError ?missing)"
    unfolding select_columns_def by (simp only: list.case)
  with assms(1) have "process_data parse df = Inl (KeyError ?missing)"
    by (simp add: process_data_def and_then_def)
  with in_missing show ?thesis by blast
qed

text \<open>
  Claim C5, as the code has it. Let \<open>t\<close> be what \<^verbatim>\<open>_process_data\<close> returns for a raw
  frame that is not empty and has no parameter named unit. Applied to \<open>t\<close> again,
  \<^verbatim>\<open>_process_data\<close> returns \<open>t\<close> unchanged when \<open>t\<close> has no row (the early return for an
  empty frame), and raises a \<^verbatim>\<open>KeyError\<close> that names unit when \<open>t\<close> has a row: the
  table no longer has the raw columns that the reshape selects.
\<close>

theorem reshape_of_its_own_output:
  assumes "process_data parse df = Inr t" and "\<not> df_empty df"
    and "Str ''unit'' \<notin> set (column_values df ''parameter'')"
  shows "(rows t \<noteq> [] \<longrightarrow>
            (\<exists>missing. process_data parse' t = Inl (KeyError missing) \<and> ''unit'' \<in> set missing))
       \<and> (rows t = [] \<longrightarrow> process_data parse' t = Inr t)"
proof (intro conjI impI)
  assume "rows t = []"
  then show "process_data parse' t = Inr t"
    by (simp add: process_data_empty df_empty_def)
next
  assume ne: "rows t \<noteq> []"
  have "columns t \<noteq> []"
    by (subst reshape_table(1)[OF assms(1,2)]) (simp add: key_columns_def)
  with ne have "\<not> df_empty t" by (simp add: df_empty_def)
  moreover have "''unit'' \<notin> set (columns t)"
    using table_columns_subset[OF assms(1,2)] assms(3) by (auto simp: key_columns_def)
  ultimately show "\<exists>missing. process_data parse' t = Inl (KeyError missing) \<and> ''unit'' \<in> set missing"
    by (rule process_data_missing_column) simp
qed

text \<open>
  Claim C5 as stated fails: the table of a single pm25 measurement is not reshaped
  into itself, the second run raises \<^verbatim>\<open>KeyError\<close>.
\<close>

theorem reshape_is_not_idempotent:
  "process_data sample_parse
        \<lparr>columns = [''date'', ''value'', ''unit'', ''location'', ''city'', ''country'', ''parameter''],
         rows = [[Dict [(''utc'', Str ''2024-01-01T00:00:00Z'')], Num 10, Str ''ug/m3'', Str ''Site 1'',
                  Str ''Chicago'', Str ''US'', Str ''pm25'']]\<rparr>
     = Inr \<lparr>columns = [''date'', ''location'', ''city'', ''country'', ''pm25''],
            rows = [[Time 1704067200000000000, Str ''Site 1'', Str ''Chicago'', Str ''US'', Num 10]]\<rparr>
   \<and> process_data sample_parse
        \<lparr>columns = [''date'', ''location'', ''city'', ''country'', ''pm25''],
         rows = [[Time 1704067200000000000, Str ''Site 1'', Str ''Chicago'', Str ''US'', Num 10]]\<rparr>
     = Inl (KeyError [''parameter'', ''value'', ''unit''])"
  by code_simp

theorem reshape_of_its_own_output_witness:
  "process_data sample_parse
        \<lparr>columns = [''date'', ''value'', ''unit'', ''location'', ''city'', ''country'', ''parameter''],
         rows = [[Dict [(''utc'', Str ''2024-01-01T00:00:00Z'')], Num 10, Str ''ug/m3'', Str ''Site 1'',
                  Str ''Chicago'', Str ''US'', Str ''o3'']]\<rparr>
     = Inr \<lparr>columns = [''date'', ''location'', ''city'', ''country'', ''o3''],
            rows = [[Time 1704067200000000000, Str ''Site 1'', Str ''Chicago'', Str ''US'', Num 10]]\<rparr>
   \<and> (\<exists>missing. process_data sample_parse
          \<lparr>columns = [''date'', ''location'', ''city'', ''country'', ''o3''],
           rows = [[Time 1704067200000000000, Str ''Site 1'', Str ''Chicago'', Str ''US'', Num 10]]\<rparr>
        = Inl (KeyError missing) \<and> ''unit'' \<in> set missing)"
proof -
  let ?df = "\<lparr>columns = [''date'', ''value'', ''unit'', ''location'', ''city'', ''country'', ''parameter''],
         rows = [[Dict [(''utc'', Str ''2024-01-01T00:00:00Z'')], Num 10, Str ''ug/m3'', Str ''Site 1'',
                  Str ''Chicago'', Str ''US'', Str ''o3'']]\<rparr>"
  let ?t = "\<lparr>columns = [''date'', ''location'', ''city'', ''country'', ''o3''],
            rows = [[Time 1704067200000000000, Str ''Site 1'', Str ''Chicago'', Str ''US'', Num 10]]\<rparr>"
  have h1: "process_data sample_parse ?df = Inr ?t" by code_simp
  have h2: "\<not> df_empty ?df" by (simp add: df_empty_def)
  have h3: "Str ''unit'' \<notin> set (column_values ?df ''parameter'')"
    by (simp add: column_values_def lookup_cell_def)
  have h4: "rows ?t \<noteq> []" by simp
  from reshape_of_its_own_output [OF h1 h2 h3, of sample_parse]
  have "rows ?t \<noteq> [] \<longrightarrow>
          (\<exists>missing. process_data sample_parse ?t = Inl (KeyError missing) \<and> ''unit'' \<in> set missing)"
    by (rule conjunct1)
  from this h4
  have "\<exists>missing. process_data sample_parse ?t = Inl (KeyError missing) \<and> ''unit'' \<in> set missing"
    by (rule mp)
  with h1 show ?thesis by (intro conjI)
qed

end
